theory Spec2Isabelle
  imports Complex_Main "HOL-Library.Multiset"
begin

section \<open>Errors\<close>

text \<open>
  The notebook defines no exception class of its own.  Every failure is an exception of
  Python, of PyTorch or of DGL; the model names the ones that occur and keeps one
  constructor for any other error a library call may raise.
\<close>

datatype error =
    ValueError
  | KeyError
  | TypeError
  | DGLError
  | RuntimeError
  | OtherError string

section \<open>Forming a mini-batch: \<open>collate\<close>\<close>

text \<open>
  A sample is a Python tuple.  The data set yields pairs \<open>(graph, label)\<close>; the two
  kinds of object that occur in such a tuple are kept apart by a datatype, and a tuple
  is the list of its components.
\<close>

datatype ('g, 'l) obj = Graph 'g | Label 'l

definition pair :: "'g \<times> 'l \<Rightarrow> ('g, 'l) obj list" where
  "pair s = [Graph (fst s), Label (snd s)]"

text \<open>
  \<open>zip(*samples)\<close>: the tuples are the arguments of \<open>zip\<close>.  With no argument
  \<open>zip\<close> yields nothing; otherwise it yields the tuple of the first components, then
  of the second ones, and stops as soon as one argument is exhausted.
\<close>

function zip_star :: "'a list list \<Rightarrow> 'a list list" where
  "zip_star xss =
     (if xss = [] \<or> [] \<in> set xss then []
      else map hd xss # zip_star (map tl xss))"
  by pat_completeness auto
termination
proof (relation "measure (\<lambda>xss. length (hd xss))")
  show "wf (measure (\<lambda>xss. length (hd xss)))" by simp
next
  fix xss :: "'a list list"
  assume a: "\<not> (xss = [] \<or> [] \<in> set xss)"
  then obtain xs rest where xss: "xss = xs # rest" by (cases xss) auto
  with a have "xs \<noteq> []" by auto
  with xss show "(map tl xss, xss) \<in> measure (\<lambda>xss. length (hd xss))" by simp
qed

declare zip_star.simps [simp del]

text \<open>
  The objects a library call receives are checked by the library: \<open>dgl.batch\<close> needs
  graphs, and \<open>torch.tensor\<close> builds the one-dimensional tensor of a list of numbers,
  which the model writes as the list of its entries.
\<close>

fun graphs_of :: "('g, 'l) obj list \<Rightarrow> error + 'g list" where
  "graphs_of [] = Inr []"
| "graphs_of (Graph g # xs) =
     (case graphs_of xs of Inl e \<Rightarrow> Inl e | Inr gs \<Rightarrow> Inr (g # gs))"
| "graphs_of (Label l # xs) = Inl TypeError"

fun torch_tensor :: "('g, 'l) obj list \<Rightarrow> error + 'l list" where
  "torch_tensor [] = Inr []"
| "torch_tensor (Label l # xs) =
     (case torch_tensor xs of Inl e \<Rightarrow> Inl e | Inr ls \<Rightarrow> Inr (l # ls))"
| "torch_tensor (Graph g # xs) = Inl TypeError"

text \<open>
  \<open>dgl.batch\<close> is the library's batching function.  It is a parameter of the model:
  \<open>dgl_batch\<close> maps the list of graphs to the merged graph, or to the error it raises.
\<close>

definition batch :: "('g list \<Rightarrow> error + 'bg) \<Rightarrow> ('g, 'l) obj list \<Rightarrow> error + 'bg" where
  "batch dgl_batch objs =
     (case graphs_of objs of Inl e \<Rightarrow> Inl e | Inr gs \<Rightarrow> dgl_batch gs)"

text \<open>
  \<^verbatim>\<open>
  def collate(samples):
      graphs, labels = map(list, zip(*samples))
      batched_graph = dgl.batch(graphs)
      return batched_graph, torch.tensor(labels)
  \<close>
  The unpacking into two names raises \<open>ValueError\<close> unless \<open>zip\<close> yields exactly two
  tuples.
\<close>

definition collate ::
  "('g list \<Rightarrow> error + 'bg) \<Rightarrow> ('g, 'l) obj list list \<Rightarrow> error + ('bg \<times> 'l list)" where
  "collate dgl_batch samples =
     (case zip_star samples of
        [graphs, labels] \<Rightarrow>
          (case batch dgl_batch graphs of
             Inl e \<Rightarrow> Inl e
           | Inr batched_graph \<Rightarrow>
               (case torch_tensor labels of
                  Inl e \<Rightarrow> Inl e
                | Inr t \<Rightarrow> Inr (batched_graph, t)))
      | _ \<Rightarrow> Inl ValueError)"

section \<open>Tensors\<close>

text \<open>
  A feature tensor of shape \<open>(N, D)\<close> is the list of its \<open>N\<close> rows, each a vector of
  \<open>D\<close> numbers.  Floating-point numbers are idealised as reals: rounding is outside
  the model.  A tensor without rows is the empty list, which does not record the width
  \<open>D\<close> its rows would have: on such a tensor no width can be checked or passed on, so
  the model follows the library for graphs and batches with at least one node.
\<close>

type_synonym vec = "real list"
type_synonym tensor = "vec list"

definition vec_add :: "vec \<Rightarrow> vec \<Rightarrow> vec" where
  "vec_add x y = map2 (+) x y"

fun vec_sum :: "vec list \<Rightarrow> vec" where
  "vec_sum [] = []"
| "vec_sum (x # xs) = foldl vec_add x xs"

text \<open>The arithmetic mean of a non-empty list of vectors of one width.\<close>

definition vec_mean :: "vec list \<Rightarrow> vec" where
  "vec_mean xs = map (\<lambda>s. s / real (length xs)) (vec_sum xs)"

text \<open>\<open>torch.mean(t, 1)\<close> of a tensor of shape \<open>(B, deg, D)\<close>: the mean over dimension 1.\<close>

definition torch_mean_1 :: "vec list list \<Rightarrow> tensor" where
  "torch_mean_1 t = map vec_mean t"

text \<open>\<open>F.relu\<close>, entry by entry.\<close>

definition relu :: "tensor \<Rightarrow> tensor" where
  "relu t = map (map (max 0)) t"

text \<open>
  \<open>nn.Linear(in_features, out_features)\<close> holds a weight matrix of shape
  \<open>(out_features, in_features)\<close> and a bias vector.  The constructor draws them at random;
  the model takes them as arguments.  Applied to a tensor whose rows are not of width
  \<open>in_features\<close> it raises \<open>RuntimeError\<close>.
\<close>

record Linear =
  in_features :: nat
  out_features :: nat
  weight :: "real list list"
  bias :: "real list"

definition nn_Linear :: "nat \<Rightarrow> nat \<Rightarrow> real list list \<Rightarrow> real list \<Rightarrow> Linear" where
  "nn_Linear in_feats out_feats W b =
     \<lparr>in_features = in_feats, out_features = out_feats, weight = W, bias = b\<rparr>"

definition dot :: "vec \<Rightarrow> vec \<Rightarrow> real" where
  "dot x y = sum_list (map2 (*) x y)"

definition Linear_row :: "Linear \<Rightarrow> vec \<Rightarrow> vec" where
  "Linear_row L x = map2 (\<lambda>w b. dot w x + b) (weight L) (bias L)"

definition Linear_forward :: "Linear \<Rightarrow> tensor \<Rightarrow> error + tensor" where
  "Linear_forward L x =
     (if list_all (\<lambda>r. length r = in_features L) x then Inr (map (Linear_row L) x)
      else Inl RuntimeError)"

section \<open>The graph library\<close>

text \<open>
  The graph object of DGL, as far as the notebook uses it: the number of nodes, the
  edges as pairs \<open>(source, destination)\<close> in the order of their ids, the node counts of
  the graphs a batched graph was merged from, and the node data, a dictionary from
  field names to feature tensors with one row per node.  The library accepts no edge
  from or to a node that does not exist.
\<close>

type_synonym frame = "string \<Rightarrow> tensor option"

record graph =
  num_nodes :: nat
  edges :: "(nat \<times> nat) list"
  batch_num_nodes :: "nat list"
  ndata :: frame

text \<open>A computation on a graph yields a value or an error, and the graph as it left it.\<close>

type_synonym 'a result = "(error + 'a) \<times> graph"

text \<open>\<open>g.ndata[k] = t\<close>: the tensor must have one row per node.\<close>

definition set_ndata :: "string \<Rightarrow> tensor \<Rightarrow> graph \<Rightarrow> unit result" where
  "set_ndata k t g =
     (if length t = num_nodes g then (Inr (), g\<lparr>ndata := (ndata g)(k \<mapsto> t)\<rparr>)
      else (Inl DGLError, g))"

text \<open>\<open>g.ndata.pop(k)\<close>: returns the field and removes it; a missing field is a \<open>KeyError\<close>.\<close>

definition pop_ndata :: "string \<Rightarrow> graph \<Rightarrow> tensor result" where
  "pop_ndata k g =
     (case ndata g k of
        None \<Rightarrow> (Inl KeyError, g)
      | Some t \<Rightarrow> (Inr t, g\<lparr>ndata := (ndata g)(k := None)\<rparr>))"

definition in_degree :: "graph \<Rightarrow> nat \<Rightarrow> nat" where
  "in_degree g v = length (filter (\<lambda>e. snd e = v) (edges g))"

definition in_degrees :: "graph \<Rightarrow> nat list" where
  "in_degrees g = map (in_degree g) [0..<num_nodes g]"

text \<open>
  What a user-defined function receives: a batch of nodes with their data and, in a
  reduce function, their mailbox, where every field has shape \<open>(B, deg, D)\<close>.  It returns
  a dictionary of new node features.
\<close>

record nodes =
  data :: frame
  mailbox :: "string \<Rightarrow> vec list list option"

type_synonym udf = "nodes \<Rightarrow> error + (string \<times> tensor) list"

text \<open>
  The built-in message function \<open>fn.copy_src(src, out)\<close>: along every edge, the message
  field \<open>out\<close> is the field \<open>src\<close> of the edge's source node.
\<close>

definition copy_src :: "string \<Rightarrow> string \<Rightarrow> graph \<Rightarrow> error + (string \<times> vec list) list" where
  "copy_src src out g =
     (case ndata g src of
        None \<Rightarrow> Inl KeyError
      | Some h \<Rightarrow> Inr [(out, map (\<lambda>e. h ! fst e) (edges g))])"

text \<open>The messages that arrive at node \<open>v\<close>, in the order of the edge ids.\<close>

definition inbox :: "graph \<Rightarrow> vec list \<Rightarrow> nat \<Rightarrow> vec list" where
  "inbox g m v = map snd (filter (\<lambda>p. snd (fst p) = v) (zip (edges g) m))"

definition mailbox_of :: "graph \<Rightarrow> (string \<times> vec list) list \<Rightarrow> nat \<Rightarrow> string \<Rightarrow> vec list list option" where
  "mailbox_of g msgs v k = map_option (\<lambda>m. [inbox g m v]) (map_of msgs k)"

definition rows_of :: "frame \<Rightarrow> nat \<Rightarrow> frame" where
  "rows_of fr v k = map_option (\<lambda>c. [c ! v]) (fr k)"

fun sequence :: "(error + 'a) list \<Rightarrow> error + 'a list" where
  "sequence [] = Inr []"
| "sequence (Inl e # rs) = Inl e"
| "sequence (Inr x # rs) = (case sequence rs of Inl e \<Rightarrow> Inl e | Inr xs \<Rightarrow> Inr (x # xs))"

text \<open>
  Writing the one-row result of a reduce function into row \<open>v\<close> of the node data.  A
  field that does not exist yet is created with zeros in the other rows.
\<close>

definition write_row :: "nat \<Rightarrow> nat \<Rightarrow> string \<times> tensor \<Rightarrow> frame \<Rightarrow> frame" where
  "write_row n v kt fr =
     (let col = (case fr (fst kt) of
                   None \<Rightarrow> replicate n (replicate (length (hd (snd kt))) 0)
                 | Some c \<Rightarrow> c)
      in fr(fst kt \<mapsto> col[v := hd (snd kt)]))"

definition write_rows :: "nat \<Rightarrow> (nat \<times> (string \<times> tensor) list) list \<Rightarrow> frame \<Rightarrow> frame" where
  "write_rows n outs fr = fold (\<lambda>(v, out) fr. fold (write_row n v) out fr) outs fr"

text \<open>
  \<open>g.update_all(message_func, reduce_func)\<close>.  A graph without edges is left as it is.
  Otherwise the messages of all edges are computed, the reduce function is called for
  the nodes that receive at least one message, and its results are written into the
  node data.  A node that receives no message gets, in every field the reduce function
  returns, the value of the column initializer; the script sets none, so this is the
  library's default, a row of zeros of the shape of the other results.  The library
  calls the reduce function once for all nodes of equal in-degree; the model calls it
  node by node, with batches of one node, and requires one result row for each.  When
  a call fails, nothing has been written.
\<close>

definition receivers :: "graph \<Rightarrow> nat list" where
  "receivers g = filter (\<lambda>v. 0 < in_degree g v) [0..<num_nodes g]"

definition zero_feat :: "(string \<times> tensor) list list \<Rightarrow> (string \<times> tensor) list" where
  "zero_feat outs =
     (case outs of
        [] \<Rightarrow> []
      | out # _ \<Rightarrow> map (\<lambda>kt. (fst kt, [replicate (length (hd (snd kt))) 0])) out)"

definition update_all ::
  "(graph \<Rightarrow> error + (string \<times> vec list) list) \<Rightarrow> udf \<Rightarrow> graph \<Rightarrow> unit result" where
  "update_all message_func reduce_func g =
     (if edges g = [] then (Inr (), g)
      else
        (case message_func g of
           Inl e \<Rightarrow> (Inl e, g)
         | Inr msgs \<Rightarrow>
             (let recv = receivers g;
                  zero_deg = filter (\<lambda>v. in_degree g v = 0) [0..<num_nodes g]
              in case sequence (map (\<lambda>v. reduce_func
                      \<lparr>data = rows_of (ndata g) v, mailbox = mailbox_of g msgs v\<rparr>) recv) of
                   Inl e \<Rightarrow> (Inl e, g)
                 | Inr outs \<Rightarrow>
                     (if list_all (list_all (\<lambda>kt. length (snd kt) = 1)) outs
                      then (Inr (), g\<lparr>ndata := write_rows (num_nodes g)
                              (zip recv outs @ map (\<lambda>v. (v, zero_feat outs)) zero_deg) (ndata g)\<rparr>)
                      else (Inl DGLError, g)))))"

text \<open>
  \<open>g.apply_nodes(func)\<close>: the function is called once with all nodes, and every field
  it returns, one row per node, replaces that field of the node data.
\<close>

definition apply_nodes :: "udf \<Rightarrow> graph \<Rightarrow> unit result" where
  "apply_nodes func g =
     (case func \<lparr>data = ndata g, mailbox = (\<lambda>k. None)\<rparr> of
        Inl e \<Rightarrow> (Inl e, g)
      | Inr out \<Rightarrow>
          (if list_all (\<lambda>kt. length (snd kt) = num_nodes g) out
           then (Inr (), g\<lparr>ndata := fold (\<lambda>kt fr. fr(fst kt \<mapsto> snd kt)) out (ndata g)\<rparr>)
           else (Inl DGLError, g)))"

text \<open>
  \<open>dgl.mean_nodes(g, k)\<close> on a batched graph: for each of the merged graphs, the mean of
  field \<open>k\<close> over its nodes; for a merged graph without nodes, a row of zeros.  The rows
  of the result are as wide as the rows of the field.  For a batch without any node the
  field has no row to take the width from, and the rows of zeros of the model are empty,
  where the library's have the width of the feature.
\<close>

fun segments :: "nat list \<Rightarrow> 'a list \<Rightarrow> 'a list list" where
  "segments [] xs = []"
| "segments (n # ns) xs = take n xs # segments ns (drop n xs)"

definition row_width :: "tensor \<Rightarrow> nat" where
  "row_width t = (case t of [] \<Rightarrow> 0 | r # _ \<Rightarrow> length r)"

definition segment_mean :: "nat \<Rightarrow> vec list \<Rightarrow> vec" where
  "segment_mean d seg = (if seg = [] then replicate d 0 else vec_mean seg)"

definition mean_nodes :: "graph \<Rightarrow> string \<Rightarrow> error + tensor" where
  "mean_nodes g k =
     (case ndata g k of
        None \<Rightarrow> Inl KeyError
      | Some h \<Rightarrow> Inr (map (segment_mean (row_width h)) (segments (batch_num_nodes g) h)))"

section \<open>Graph convolution\<close>

text \<open>
  \<^verbatim>\<open>
  msg = fn.copy_src(src='h', out='m')

  def reduce(nodes):
      accum = torch.mean(nodes.mailbox['m'], 1)
      return {'h': accum}
  \<close>
\<close>

definition msg :: "graph \<Rightarrow> error + (string \<times> vec list) list" where
  "msg = copy_src ''h'' ''m''"

definition reduce :: udf where
  "reduce nodes =
     (case mailbox nodes ''m'' of
        None \<Rightarrow> Inl KeyError
      | Some m \<Rightarrow> (let accum = torch_mean_1 m in Inr [(''h'', accum)]))"

text \<open>
  \<^verbatim>\<open>
  class NodeApplyModule(nn.Module):
      def __init__(self, in_feats, out_feats, activation):
          self.linear = nn.Linear(in_feats, out_feats)
          self.activation = activation
      def forward(self, node):
          h = self.linear(node.data['h'])
          h = self.activation(h)
          return {'h' : h}
  \<close>
\<close>

record NodeApplyModule =
  linear :: Linear
  activation :: "tensor \<Rightarrow> tensor"

definition NodeApplyModule_init ::
  "nat \<Rightarrow> nat \<Rightarrow> (tensor \<Rightarrow> tensor) \<Rightarrow> real list list \<Rightarrow> real list \<Rightarrow> NodeApplyModule" where
  "NodeApplyModule_init in_feats out_feats act W b =
     \<lparr>linear = nn_Linear in_feats out_feats W b, activation = act\<rparr>"

definition NodeApplyModule_forward :: "NodeApplyModule \<Rightarrow> udf" where
  "NodeApplyModule_forward self node =
     (case data node ''h'' of
        None \<Rightarrow> Inl KeyError
      | Some x \<Rightarrow>
          (case Linear_forward (linear self) x of
             Inl e \<Rightarrow> Inl e
           | Inr h \<Rightarrow> (let h = activation self h in Inr [(''h'', h)])))"

text \<open>
  \<^verbatim>\<open>
  class GCN(nn.Module):
      def __init__(self, in_feats, out_feats, activation):
          self.apply_mod = NodeApplyModule(in_feats, out_feats, activation)
      def forward(self, g, feature):
          g.ndata['h'] = feature
          g.update_all(msg, reduce)
          g.apply_nodes(func=self.apply_mod)
          return g.ndata.pop('h')
  \<close>
\<close>

record GCN =
  apply_mod :: NodeApplyModule

definition GCN_init ::
  "nat \<Rightarrow> nat \<Rightarrow> (tensor \<Rightarrow> tensor) \<Rightarrow> real list list \<Rightarrow> real list \<Rightarrow> GCN" where
  "GCN_init in_feats out_feats act W b =
     \<lparr>apply_mod = NodeApplyModule_init in_feats out_feats act W b\<rparr>"

definition GCN_forward :: "GCN \<Rightarrow> graph \<Rightarrow> tensor \<Rightarrow> tensor result" where
  "GCN_forward self g feature =
     (case set_ndata ''h'' feature g of
        (Inl e, g1) \<Rightarrow> (Inl e, g1)
      | (Inr _, g1) \<Rightarrow>
          (case update_all msg reduce g1 of
             (Inl e, g2) \<Rightarrow> (Inl e, g2)
           | (Inr _, g2) \<Rightarrow>
               (case apply_nodes (NodeApplyModule_forward (apply_mod self)) g2 of
                  (Inl e, g3) \<Rightarrow> (Inl e, g3)
                | (Inr _, g3) \<Rightarrow> pop_ndata ''h'' g3)))"

section \<open>Readout and classification\<close>

text \<open>
  \<^verbatim>\<open>
  class Classifier(nn.Module):
      def __init__(self, in_dim, hidden_dim, n_classes):
          self.layers = nn.ModuleList([
              GCN(in_dim, hidden_dim, F.relu),
              GCN(hidden_dim, hidden_dim, F.relu)])
          self.classify = nn.Linear(hidden_dim, n_classes)
      def forward(self, g):
          h = g.in_degrees().view(-1, 1).float()
          for conv in self.layers:
              h = conv(g, h)
          g.ndata['h'] = h
          hg = dgl.mean_nodes(g, 'h')
          return self.classify(hg)
  \<close>
  The three pairs of arguments after the dimensions are the weights and biases the
  linear layers are created with.
\<close>

record Classifier =
  layers :: "GCN list"
  classify :: Linear

definition Classifier_init ::
  "nat \<Rightarrow> nat \<Rightarrow> nat \<Rightarrow> real list list \<Rightarrow> real list \<Rightarrow> real list list \<Rightarrow> real list \<Rightarrow>
   real list list \<Rightarrow> real list \<Rightarrow> Classifier" where
  "Classifier_init in_dim hidden_dim n_classes W1 b1 W2 b2 Wc bc =
     \<lparr>layers = [GCN_init in_dim hidden_dim relu W1 b1,
                GCN_init hidden_dim hidden_dim relu W2 b2],
      classify = nn_Linear hidden_dim n_classes Wc bc\<rparr>"

fun apply_layers :: "GCN list \<Rightarrow> graph \<Rightarrow> tensor \<Rightarrow> tensor result" where
  "apply_layers [] g h = (Inr h, g)"
| "apply_layers (conv # convs) g h =
     (case GCN_forward conv g h of
        (Inl e, g1) \<Rightarrow> (Inl e, g1)
      | (Inr h1, g1) \<Rightarrow> apply_layers convs g1 h1)"

definition Classifier_forward :: "Classifier \<Rightarrow> graph \<Rightarrow> tensor result" where
  "Classifier_forward self g =
     (let h = map (\<lambda>d. [real d]) (in_degrees g) in
      case apply_layers (layers self) g h of
        (Inl e, g1) \<Rightarrow> (Inl e, g1)
      | (Inr h, g1) \<Rightarrow>
          (case set_ndata ''h'' h g1 of
             (Inl e, g2) \<Rightarrow> (Inl e, g2)
           | (Inr _, g2) \<Rightarrow>
               (case mean_nodes g2 ''h'' of
                  Inl e \<Rightarrow> (Inl e, g2)
                | Inr hg \<Rightarrow>
                    (case Linear_forward (classify self) hg of
                       Inl e \<Rightarrow> (Inl e, g2)
                     | Inr y \<Rightarrow> (Inr y, g2)))))"

section \<open>The update rule and the classifier, as formulas\<close>

text \<open>
  What a node holds after the messages are sent and reduced: a message is the feature
  of the edge's source node, and a node that receives messages holds their arithmetic
  mean.  A node that receives none holds a row of zeros, as wide as the mean at the
  first node that receives messages; when no node receives a message, every node keeps
  its feature.
\<close>

definition received_mean :: "graph \<Rightarrow> tensor \<Rightarrow> nat \<Rightarrow> vec" where
  "received_mean g feature v =
     vec_mean (map (\<lambda>e. feature ! fst e) (filter (\<lambda>e. snd e = v) (edges g)))"

definition neighbour_mean :: "graph \<Rightarrow> tensor \<Rightarrow> nat \<Rightarrow> vec" where
  "neighbour_mean g feature v =
     (if 0 < in_degree g v then received_mean g feature v
      else (case receivers g of
              [] \<Rightarrow> feature ! v
            | u # _ \<Rightarrow> replicate (length (received_mean g feature u)) 0))"

text \<open>The linear transform and the activation, applied to these means.\<close>

definition graph_conv :: "NodeApplyModule \<Rightarrow> graph \<Rightarrow> tensor \<Rightarrow> tensor" where
  "graph_conv m g feature =
     activation m (map (Linear_row (linear m)) (map (neighbour_mean g feature) [0..<num_nodes g]))"

text \<open>
  The graphs the data set and the batching function produce: every edge joins existing
  nodes, and a batched graph is merged from graphs with at least one node each.
\<close>

definition wf_batched :: "graph \<Rightarrow> bool" where
  "wf_batched g \<longleftrightarrow>
     list_all (\<lambda>e. fst e < num_nodes g \<and> snd e < num_nodes g) (edges g) \<and>
     list_all (\<lambda>k. 0 < k) (batch_num_nodes g) \<and>
     sum_list (batch_num_nodes g) = num_nodes g"

text \<open>The shapes \<open>nn.Linear(in_feats, out_feats)\<close> gives its weight and its bias.\<close>

definition shaped :: "nat \<Rightarrow> nat \<Rightarrow> real list list \<Rightarrow> real list \<Rightarrow> bool" where
  "shaped in_feats out_feats W b \<longleftrightarrow>
     length W = out_feats \<and> list_all (\<lambda>r. length r = in_feats) W \<and> length b = out_feats"

text \<open>A tensor of shape \<open>(N, d)\<close>.\<close>

definition width :: "nat \<Rightarrow> tensor \<Rightarrow> bool" where
  "width d t = list_all (\<lambda>r. length r = d) t"

text \<open>
  The classifier, in the words of its description: the in-degrees as node features, two
  graph convolutions with \<open>relu\<close>, one after the other, the mean over the nodes of
  each graph, and one linear layer.  The first component is the node features after the
  second convolution, the second the logits.
\<close>

definition degree_features :: "graph \<Rightarrow> tensor" where
  "degree_features g = map (\<lambda>d. [real d]) (in_degrees g)"

definition classifier_logits ::
  "nat \<Rightarrow> nat \<Rightarrow> nat \<Rightarrow> real list list \<Rightarrow> real list \<Rightarrow> real list list \<Rightarrow> real list \<Rightarrow>
   real list list \<Rightarrow> real list \<Rightarrow> graph \<Rightarrow> tensor \<times> tensor" where
  "classifier_logits in_dim hidden_dim n_classes W1 b1 W2 b2 Wc bc g =
     (let h1 = graph_conv (NodeApplyModule_init in_dim hidden_dim relu W1 b1) g (degree_features g);
          h2 = graph_conv (NodeApplyModule_init hidden_dim hidden_dim relu W2 b2) g h1;
          hg = map vec_mean (segments (batch_num_nodes g) h2)
      in (h2, map (Linear_row (nn_Linear hidden_dim n_classes Wc bc)) hg))"

text \<open>Two graphs are the same except for the field \<open>h\<close> of their node data.\<close>

definition same_but_h :: "graph \<Rightarrow> graph \<Rightarrow> bool" where
  "same_but_h g g' \<longleftrightarrow>
     num_nodes g' = num_nodes g \<and> edges g' = edges g \<and>
     batch_num_nodes g' = batch_num_nodes g \<and>
     (\<forall>k. k \<noteq> ''h'' \<longrightarrow> ndata g' k = ndata g k)"

section \<open>Setup and training\<close>

text \<open>
  The training cell works on objects of PyTorch: the parameters of the model, their
  gradients and the state of the optimizer.  They form the \<open>world\<close> of the model, of a
  type that is left open, and every library call of the cell is a function on it that
  may fail.  The functions are the fields of a record:
  \<^item> \<open>batch_graphs\<close> is \<open>dgl.batch\<close>;
  \<^item> \<open>sampler e\<close> is the order in which the data loader, created with
    \<open>shuffle=True\<close>, visits the samples in its pass number \<open>e\<close>;
  \<^item> \<open>model\<close> is the call \<open>model(bg)\<close>, which returns the logits;
  \<^item> \<open>loss_func\<close> is \<open>nn.CrossEntropyLoss()\<close>, and \<open>item\<close> reads the number
    \<open>loss.detach().item()\<close>;
  \<^item> \<open>zero_grad\<close>, \<open>backward\<close> and \<open>step\<close> are \<open>optimizer.zero_grad()\<close>,
    \<open>loss.backward()\<close> and \<open>optimizer.step()\<close>;
  \<^item> \<open>draw i p\<close> is the class \<open>torch.multinomial\<close> draws for row \<open>i\<close> from the
    distribution \<open>p\<close>.
\<close>

record ('w, 'g, 'bg, 'l, 'loss) torch =
  batch_graphs :: "'g list \<Rightarrow> error + 'bg"
  sampler :: "nat \<Rightarrow> ('g \<times> 'l) list \<Rightarrow> ('g \<times> 'l) list"
  model :: "'bg \<Rightarrow> 'w \<Rightarrow> (error + tensor) \<times> 'w"
  loss_func :: "tensor \<Rightarrow> 'l list \<Rightarrow> 'w \<Rightarrow> (error + 'loss) \<times> 'w"
  item :: "'loss \<Rightarrow> real"
  zero_grad :: "'w \<Rightarrow> (error + unit) \<times> 'w"
  backward :: "'loss \<Rightarrow> 'w \<Rightarrow> (error + unit) \<times> 'w"
  step :: "'w \<Rightarrow> (error + unit) \<times> 'w"
  draw :: "nat \<Rightarrow> vec \<Rightarrow> nat"

text \<open>The library calls of the cells, as they are recorded in the order they are made.\<close>

datatype ('bg, 'l) call =
    Forward 'bg
  | Loss "'l list"
  | ZeroGrad
  | Backward
  | Step
  | Item real

text \<open>
  The lines the cells print: the format string with its arguments.
  \<^verbatim>\<open>
  'Epoch {}, loss {:.4f}'
  'Accuracy of sampled predictions on the test set: {:.4f}%'
  'Accuracy of argmax predictions on the test set: {:4f}%'
  \<close>
\<close>

datatype line =
    EpochLine nat real
  | SampledLine real
  | ArgmaxLine real

text \<open>
  The state of the script: the world of PyTorch, the variables \<open>iter\<close>, \<open>epoch_loss\<close>
  and \<open>epoch_losses\<close>, and the console.  Before the first mini-batch the name \<open>iter\<close>
  is still Python's built-in function, not a number: that is \<open>None\<close>.  The field
  \<open>calls\<close> is the record of the library calls made so far.
\<close>

record ('w, 'bg, 'l) script =
  world :: 'w
  iter :: "nat option"
  epoch_loss :: real
  epoch_losses :: "real list"
  stdout :: "line list"
  calls :: "('bg, 'l) call list"

text \<open>Running one step after another: an error ends the run, in the state it occurred in.\<close>

definition and_then ::
  "('s \<Rightarrow> (error + 'a) \<times> 's) \<Rightarrow> ('a \<Rightarrow> 's \<Rightarrow> (error + 'b) \<times> 's) \<Rightarrow> 's \<Rightarrow> (error + 'b) \<times> 's" where
  "and_then m f s = (case m s of (Inl e, s1) \<Rightarrow> (Inl e, s1) | (Inr x, s1) \<Rightarrow> f x s1)"

text \<open>A library call on the world, recorded.\<close>

definition lib_call ::
  "('bg, 'l) call \<Rightarrow> ('w \<Rightarrow> (error + 'a) \<times> 'w) \<Rightarrow> ('w, 'bg, 'l) script \<Rightarrow>
   (error + 'a) \<times> ('w, 'bg, 'l) script" where
  "lib_call c f s =
     (case f (world s) of (r, w) \<Rightarrow> (r, s\<lparr>world := w, calls := calls s @ [c]\<rparr>))"

text \<open>
  \<open>DataLoader(trainset, batch_size=32, shuffle=True, collate_fn=collate)\<close>.  With
  \<open>shuffle=True\<close> the constructor refuses a data set without samples and raises
  \<open>ValueError\<close>.  In every pass over the loader the samples, in the order of the
  sampler, are cut into batches of \<open>batch_size\<close> samples, the last one possibly smaller;
  each batch goes through \<open>collate\<close> when the loop asks for it.
\<close>

record 'a data_loader =
  dataset :: "'a list"
  batch_size :: nat

definition DataLoader :: "'a list \<Rightarrow> nat \<Rightarrow> error + 'a data_loader" where
  "DataLoader samples n =
     (if samples = [] then Inl ValueError else Inr \<lparr>dataset = samples, batch_size = n\<rparr>)"

function chunks :: "nat \<Rightarrow> 'a list \<Rightarrow> 'a list list" where
  "chunks n xs = (if n = 0 \<or> xs = [] then [] else take n xs # chunks n (drop n xs))"
  by pat_completeness auto
termination
  by (relation "measure (\<lambda>(n, xs). length xs)") auto

declare chunks.simps [simp del]

definition loader_batches :: "'a data_loader \<Rightarrow> ('a list \<Rightarrow> 'a list) \<Rightarrow> 'a list list" where
  "loader_batches loader order = chunks (batch_size loader) (order (dataset loader))"

text \<open>
  The body of the inner loop, for the mini-batch with index \<open>i\<close>:
  \<^verbatim>\<open>
  for iter, (bg, label) in enumerate(data_loader):
      prediction = model(bg)
      loss = loss_func(prediction, label)
      optimizer.zero_grad()
      loss.backward()
      optimizer.step()
      epoch_loss += loss.detach().item()
  \<close>
\<close>

definition train_step ::
  "('w, 'g, 'bg, 'l, 'loss) torch \<Rightarrow> nat \<Rightarrow> ('g \<times> 'l) list \<Rightarrow> ('w, 'bg, 'l) script \<Rightarrow>
   (error + unit) \<times> ('w, 'bg, 'l) script" where
  "train_step lib i samples s =
     (case collate (batch_graphs lib) (map pair samples) of
        Inl e \<Rightarrow> (Inl e, s)
      | Inr (bg, label) \<Rightarrow>
          and_then (lib_call (Forward bg) (model lib bg)) (\<lambda>prediction.
          and_then (lib_call (Loss label) (loss_func lib prediction label)) (\<lambda>loss.
          and_then (lib_call ZeroGrad (zero_grad lib)) (\<lambda>_.
          and_then (lib_call Backward (backward lib loss)) (\<lambda>_.
          and_then (lib_call Step (step lib)) (\<lambda>_ s.
            (Inr (), s\<lparr>epoch_loss := epoch_loss s + item lib loss,
                        calls := calls s @ [Item (item lib loss)]\<rparr>))))))
            (s\<lparr>iter := Some i\<rparr>))"

fun train_batches ::
  "('w, 'g, 'bg, 'l, 'loss) torch \<Rightarrow> nat \<Rightarrow> ('g \<times> 'l) list list \<Rightarrow> ('w, 'bg, 'l) script \<Rightarrow>
   (error + unit) \<times> ('w, 'bg, 'l) script" where
  "train_batches lib i [] s = (Inr (), s)"
| "train_batches lib i (samples # rest) s =
     and_then (train_step lib i samples) (\<lambda>_. train_batches lib (Suc i) rest) s"

text \<open>
  One pass of the outer loop:
  \<^verbatim>\<open>
  for epoch in range(80):
      epoch_loss = 0
      for iter, (bg, label) in enumerate(data_loader): ...
      epoch_loss /= (iter + 1)
      print('Epoch {}, loss {:.4f}'.format(epoch, epoch_loss))
      epoch_losses.append(epoch_loss)
  \<close>
  When \<open>iter\<close> is still the built-in function, \<open>iter + 1\<close> raises \<open>TypeError\<close>.
\<close>

definition train_epoch ::
  "('w, 'g, 'bg, 'l, 'loss) torch \<Rightarrow> ('g \<times> 'l) data_loader \<Rightarrow> nat \<Rightarrow> ('w, 'bg, 'l) script \<Rightarrow>
   (error + unit) \<times> ('w, 'bg, 'l) script" where
  "train_epoch lib data_loader epoch s =
     and_then (train_batches lib 0 (loader_batches data_loader (sampler lib epoch)))
       (\<lambda>_ s. case iter s of
                 None \<Rightarrow> (Inl TypeError, s)
               | Some i \<Rightarrow>
                   (let epoch_loss = epoch_loss s / real (i + 1)
                    in (Inr (), s\<lparr>epoch_loss := epoch_loss,
                                   stdout := stdout s @ [EpochLine epoch epoch_loss],
                                   epoch_losses := epoch_losses s @ [epoch_loss]\<rparr>)))
       (s\<lparr>epoch_loss := 0\<rparr>)"

fun train_epochs ::
  "('w, 'g, 'bg, 'l, 'loss) torch \<Rightarrow> ('g \<times> 'l) data_loader \<Rightarrow> nat list \<Rightarrow>
   ('w, 'bg, 'l) script \<Rightarrow> (error + unit) \<times> ('w, 'bg, 'l) script" where
  "train_epochs lib data_loader [] s = (Inr (), s)"
| "train_epochs lib data_loader (epoch # rest) s =
     and_then (train_epoch lib data_loader epoch) (\<lambda>_. train_epochs lib data_loader rest) s"

text \<open>
  The training cell: the data loader is built, then the loop runs.
  \<^verbatim>\<open>
  data_loader = DataLoader(trainset, batch_size=32, shuffle=True,
                           collate_fn=collate)
  ...
  epoch_losses = []
  for epoch in range(80): ...
  \<close>
\<close>

definition training ::
  "('w, 'g, 'bg, 'l, 'loss) torch \<Rightarrow> ('g \<times> 'l) list \<Rightarrow> ('w, 'bg, 'l) script \<Rightarrow>
   (error + unit) \<times> ('w, 'bg, 'l) script" where
  "training lib trainset s =
     (case DataLoader trainset 32 of
        Inl e \<Rightarrow> (Inl e, s)
      | Inr data_loader \<Rightarrow> train_epochs lib data_loader [0..<80] (s\<lparr>epoch_losses := []\<rparr>))"

text \<open>
  Gradient descent, in the words of its description.  One step on a mini-batch is the
  forward pass of the model on the batched graph, the loss of the prediction against the
  labels, the reset of the gradients, the backward pass of the loss and the step of the
  optimizer, each in the world the one before has left; it gives the number read from
  the loss and the world after the optimizer step, and nothing when one of the calls
  fails.  The steps on the mini-batches of an epoch and the epochs follow one another,
  each from the world the one before has reached.
\<close>

definition gradient_step ::
  "('w, 'g, 'bg, 'l, 'loss) torch \<Rightarrow> 'bg \<times> 'l list \<Rightarrow> 'w \<Rightarrow> (real \<times> 'w) option" where
  "gradient_step lib b w =
     (case model lib (fst b) w of
        (Inl _, _) \<Rightarrow> None
      | (Inr prediction, w1) \<Rightarrow>
          (case loss_func lib prediction (snd b) w1 of
             (Inl _, _) \<Rightarrow> None
           | (Inr loss, w2) \<Rightarrow>
               (case zero_grad lib w2 of
                  (Inl _, _) \<Rightarrow> None
                | (Inr _, w3) \<Rightarrow>
                    (case backward lib loss w3 of
                       (Inl _, _) \<Rightarrow> None
                     | (Inr _, w4) \<Rightarrow>
                         (case step lib w4 of
                            (Inl _, _) \<Rightarrow> None
                          | (Inr _, w5) \<Rightarrow> Some (item lib loss, w5))))))"

fun gradient_steps ::
  "('w, 'g, 'bg, 'l, 'loss) torch \<Rightarrow> ('bg \<times> 'l list) list \<Rightarrow> 'w \<Rightarrow> (real list \<times> 'w) option" where
  "gradient_steps lib [] w = Some ([], w)"
| "gradient_steps lib (b # bs) w =
     (case gradient_step lib b w of
        None \<Rightarrow> None
      | Some (x, w1) \<Rightarrow>
          (case gradient_steps lib bs w1 of
             None \<Rightarrow> None
           | Some (xs, w2) \<Rightarrow> Some (x # xs, w2)))"

fun gradient_epochs ::
  "('w, 'g, 'bg, 'l, 'loss) torch \<Rightarrow> ('bg \<times> 'l list) list list \<Rightarrow> 'w \<Rightarrow>
   (real list list \<times> 'w) option" where
  "gradient_epochs lib [] w = Some ([], w)"
| "gradient_epochs lib (bs # bss) w =
     (case gradient_steps lib bs w of
        None \<Rightarrow> None
      | Some (xs, w1) \<Rightarrow>
          (case gradient_epochs lib bss w1 of
             None \<Rightarrow> None
           | Some (xss, w2) \<Rightarrow> Some (xs # xss, w2)))"

text \<open>
  The calls of one mini-batch, in the order of the loop body, where \<open>x\<close> is the number
  read from the loss; and the calls of the mini-batches of one epoch.
\<close>

definition minibatch_calls :: "'bg \<times> 'l list \<Rightarrow> real \<Rightarrow> ('bg, 'l) call list" where
  "minibatch_calls b x = [Forward (fst b), Loss (snd b), ZeroGrad, Backward, Step, Item x]"

definition batches_calls :: "('bg \<times> 'l list) list \<Rightarrow> real list \<Rightarrow> ('bg, 'l) call list" where
  "batches_calls bls xs = concat (map2 minibatch_calls bls xs)"

text \<open>What \<open>collate\<close> makes of the batches of samples of one pass of the data loader.\<close>

definition collated ::
  "('w, 'g, 'bg, 'l, 'loss) torch \<Rightarrow> ('g \<times> 'l) list list \<Rightarrow> (error + 'bg \<times> 'l list) list" where
  "collated lib bs = map (\<lambda>samples. collate (batch_graphs lib) (map pair samples)) bs"

text \<open>
  The mini-batches of an epoch and the loss values read in it: the batches are the ones
  the data loader forms in that pass, and there is one loss value for each.
\<close>

definition epoch_run ::
  "('w, 'g, 'bg, 'l, 'loss) torch \<Rightarrow> ('g \<times> 'l) list \<Rightarrow> nat \<Rightarrow>
   ('bg \<times> 'l list) list \<times> real list \<Rightarrow> bool" where
  "epoch_run lib trainset epoch r \<longleftrightarrow>
     collated lib (loader_batches \<lparr>dataset = trainset, batch_size = 32\<rparr> (sampler lib epoch)) =
       map Inr (fst r) \<and>
     length (snd r) = length (fst r)"

text \<open>The line of an epoch: its index and the mean of its loss values.\<close>

definition epoch_line :: "nat \<Rightarrow> ('bg \<times> 'l list) list \<times> real list \<Rightarrow> line" where
  "epoch_line epoch r = EpochLine epoch (sum_list (snd r) / real (length (snd r)))"

section \<open>Evaluation\<close>

text \<open>\<open>torch.softmax(t, 1)\<close>: every row is normalised by the exponential function.\<close>

definition softmax :: "vec \<Rightarrow> vec" where
  "softmax r = map (\<lambda>x. exp x / sum_list (map exp r)) r"

definition torch_softmax_1 :: "tensor \<Rightarrow> tensor" where
  "torch_softmax_1 t = map softmax t"

text \<open>
  \<open>torch.max(t, 1)[1]\<close> gives for every row the index of a maximal entry; the model
  takes the first one.
\<close>

fun argmax :: "vec \<Rightarrow> nat" where
  "argmax [] = 0"
| "argmax (x # xs) =
     (if xs = [] then 0 else (let j = argmax xs in if x < xs ! j then Suc j else 0))"

text \<open>
  \<open>(a == b).sum().item()\<close> for two tensors of shapes \<open>(N, 1)\<close> and \<open>(M, 1)\<close>, written as
  the lists of their entries: the entries are compared one by one; when the shapes
  differ, a tensor with one entry is broadcast, and any other pair of shapes is an error.
\<close>

definition eq_count :: "real list \<Rightarrow> real list \<Rightarrow> error + nat" where
  "eq_count a b =
     (if length a = length b then Inr (length (filter (\<lambda>p. fst p = snd p) (zip a b)))
      else if length b = 1 then Inr (length (filter (\<lambda>x. x = hd b) a))
      else if length a = 1 then Inr (length (filter (\<lambda>y. hd a = y) b))
      else Inl RuntimeError)"

text \<open>
  \<^verbatim>\<open>
  test_X, test_Y = map(list, zip(*testset))
  test_bg = dgl.batch(test_X)
  test_Y = torch.tensor(test_Y).float().view(-1, 1)
  probs_Y = torch.softmax(model(test_bg), 1)
  sampled_Y = torch.multinomial(probs_Y, 1)
  argmax_Y = torch.max(probs_Y, 1)[1].view(-1, 1)
  print('Accuracy of sampled predictions on the test set: {:.4f}%'.format(
      (test_Y == sampled_Y.float()).sum().item() / len(test_Y) * 100))
  print('Accuracy of argmax predictions on the test set: {:4f}%'.format(
      (test_Y == argmax_Y.float()).sum().item() / len(test_Y) * 100))
  \<close>
  The labels are class indices.  A distribution over no class at all cannot be sampled
  from: that is a \<open>RuntimeError\<close>.  Where the divisions are reached the test set is not
  empty, since the unpacking has succeeded.
\<close>

definition evaluation ::
  "('w, 'g, 'bg, int, 'loss) torch \<Rightarrow> ('g \<times> int) list \<Rightarrow> ('w, 'bg, int) script \<Rightarrow>
   (error + unit) \<times> ('w, 'bg, int) script" where
  "evaluation lib testset s =
     (case zip_star (map pair testset) of
        [test_X, test_Y] \<Rightarrow>
          (case batch (batch_graphs lib) test_X of
             Inl e \<Rightarrow> (Inl e, s)
           | Inr test_bg \<Rightarrow>
               (case torch_tensor test_Y of
                  Inl e \<Rightarrow> (Inl e, s)
                | Inr labels \<Rightarrow>
                    and_then (lib_call (Forward test_bg) (model lib test_bg)) (\<lambda>logits s.
                      (let test_Y = map real_of_int labels;
                           probs_Y = torch_softmax_1 logits
                       in if list_ex (\<lambda>r. r = []) probs_Y then (Inl RuntimeError, s)
                          else
                            (let sampled_Y = map2 (draw lib) [0..<length probs_Y] probs_Y;
                                 argmax_Y = map argmax probs_Y
                             in case eq_count test_Y (map real sampled_Y) of
                                  Inl e \<Rightarrow> (Inl e, s)
                                | Inr k1 \<Rightarrow>
                                    (let s = s\<lparr>stdout := stdout s @
                                               [SampledLine (real k1 / real (length test_Y) * 100)]\<rparr>
                                     in case eq_count test_Y (map real argmax_Y) of
                                          Inl e \<Rightarrow> (Inl e, s)
                                        | Inr k2 \<Rightarrow>
                                            (Inr (), s\<lparr>stdout := stdout s @
                                               [ArgmaxLine (real k2 / real (length test_Y) * 100)]\<rparr>)))))
                      s))
      | _ \<Rightarrow> (Inl ValueError, s))"

text \<open>
  An accuracy, in the words of its description: the number of test graphs whose
  predicted class is the true label, as a percentage of the number of test graphs.
\<close>

definition accuracy :: "(nat \<Rightarrow> nat) \<Rightarrow> ('g \<times> int) list \<Rightarrow> real" where
  "accuracy predicted testset =
     real (length (filter (\<lambda>i. snd (testset ! i) = int (predicted i)) [0..<length testset]))
       / real (length testset) * 100"

section \<open>Example inputs\<close>

text \<open>
  A graph of two nodes with a self-loop at each and an edge from node 0 to node 1, which
  already stores a field \<open>h\<close>.
\<close>

definition g7 :: graph where
  "g7 = \<lparr>num_nodes = 2, edges = [(0, 0), (1, 1), (0, 1)], batch_num_nodes = [2],
         ndata = (\<lambda>k. None)(''h'' \<mapsto> [[7], [7]])\<rparr>"

text \<open>
  A batch of two graphs, of two nodes and of one node, with a self-loop at every node,
  and a classifier with hidden dimension 2 and two classes.
\<close>

definition g0 :: graph where
  "g0 = \<lparr>num_nodes = 3, edges = [(0, 0), (1, 1), (2, 2), (0, 1), (1, 0)],
         batch_num_nodes = [2, 1], ndata = (\<lambda>k. None)\<rparr>"

definition c0 :: Classifier where
  "c0 = Classifier_init 1 2 2 [[1], [-1]] [0, 1] [[1, 0], [0, 1]] [0, 1] [[1, 1], [1, -1]] [0, 0]"

text \<open>
  A library for a run of the training and evaluation cells: graphs are numbers and
  batching adds them, the data loader visits the samples in reverse order, the model
  returns the same logits for two graphs over three classes, the loss is always one
  half, and the optimizer counts its steps in the world.  A data set of two samples, the
  state before the training cell, a library whose model call fails, and a graph
  convolution layer for features of width 1.
\<close>

definition lib0 :: "(nat, nat, nat, int, real) torch" where
  "lib0 = \<lparr>batch_graphs = (\<lambda>gs. Inr (sum_list gs)),
           sampler = (\<lambda>e xs. rev xs),
           model = (\<lambda>bg w. (Inr [[0, 0, 0], [0, 0, 0]], w)),
           loss_func = (\<lambda>p l w. (Inr (1 / 2), w)),
           item = (\<lambda>x. x),
           zero_grad = (\<lambda>w. (Inr (), w)),
           backward = (\<lambda>l w. (Inr (), w)),
           step = (\<lambda>w. (Inr (), Suc w)),
           draw = (\<lambda>i p. 2)\<rparr>"

definition ts0 :: "(nat \<times> int) list" where
  "ts0 = [(5, 0), (7, 2)]"

definition s0 :: "(nat, nat, int) script" where
  "s0 = \<lparr>world = 0, iter = None, epoch_loss = 0, epoch_losses = [], stdout = [], calls = []\<rparr>"

definition lib1 :: "(nat, nat, nat, int, real) torch" where
  "lib1 = lib0\<lparr>model := (\<lambda>bg w. (Inl (OtherError ''out of memory''), w))\<rparr>"

definition conv7 :: GCN where
  "conv7 = GCN_init 1 2 relu [[1], [-1]] [0, 1]"

section \<open>Properties of \<open>collate\<close>\<close>

lemma zip_star_Nil: "zip_star [] = []"
  by (simp add: zip_star.simps)

lemma zip_star_empties: "xss \<noteq> [] \<Longrightarrow> zip_star (map (\<lambda>_. []) xss) = []"
  by (cases xss) (simp_all add: zip_star.simps)

lemma zip_star_step:
  "xss \<noteq> [] \<Longrightarrow> [] \<notin> set xss \<Longrightarrow> zip_star xss = map hd xss # zip_star (map tl xss)"
  by (subst zip_star.simps) simp

lemma zip_star_pairs:
  assumes "samples \<noteq> []"
  shows "zip_star (map pair samples) =
           [map (Graph \<circ> fst) samples, map (Label \<circ> snd) samples]"
proof -
  let ?ls = "map (\<lambda>s. [Label (snd s)]) samples"
  have ne: "map pair samples \<noteq> []" "[] \<notin> set (map pair samples)"
    using assms by (auto simp: pair_def)
  have h1: "map hd (map pair samples) = map (Graph \<circ> fst) samples"
    by (simp add: pair_def)
  have t1: "map tl (map pair samples) = ?ls"
    by (simp add: pair_def)
  have ne1: "?ls \<noteq> []" "[] \<notin> set ?ls"
    using assms by auto
  have h2: "map hd ?ls = map (Label \<circ> snd) samples"
    by simp
  have t2: "map tl ?ls = map (\<lambda>_. []) samples"
    by simp
  have s0: "zip_star (map (\<lambda>_. []) samples) = []"
    using assms by (rule zip_star_empties)
  have s1: "zip_star ?ls = [map (Label \<circ> snd) samples]"
    unfolding zip_star_step [OF ne1] h2 t2 s0 ..
  show ?thesis
    unfolding zip_star_step [OF ne] h1 t1 s1 ..
qed

lemma graphs_of_Graphs: "graphs_of (map (Graph \<circ> f) xs) = Inr (map f xs)"
  by (induction xs) simp_all

lemma torch_tensor_Labels: "torch_tensor (map (Label \<circ> f) xs) = Inr (map f xs)"
  by (induction xs) simp_all

lemma collate_pairs:
  assumes "samples \<noteq> []"
  shows "collate dgl_batch (map pair samples) =
           (case dgl_batch (map fst samples) of
              Inl e \<Rightarrow> Inl e
            | Inr bg \<Rightarrow> Inr (bg, map snd samples))"
  by (simp add: collate_def zip_star_pairs [OF assms] batch_def graphs_of_Graphs
      torch_tensor_Labels split: sum.splits)

section \<open>Vectors\<close>

lemma length_vec_add: "length (vec_add x y) = min (length x) (length y)"
  by (simp add: vec_add_def)

lemma length_foldl_vec_add:
  "length x = d \<Longrightarrow> list_all (\<lambda>r. length r = d) xs \<Longrightarrow> length (foldl vec_add x xs) = d"
  by (induction xs arbitrary: x) (simp_all add: length_vec_add)

lemma length_vec_mean:
  "xs \<noteq> [] \<Longrightarrow> list_all (\<lambda>r. length r = d) xs \<Longrightarrow> length (vec_mean xs) = d"
  by (cases xs) (simp_all add: vec_mean_def length_foldl_vec_add)

lemma vec_add_nth: "j < length x \<Longrightarrow> j < length y \<Longrightarrow> vec_add x y ! j = x ! j + y ! j"
  by (simp add: vec_add_def)

lemma foldl_vec_add_nth:
  "length x = d \<Longrightarrow> list_all (\<lambda>r. length r = d) xs \<Longrightarrow> j < d \<Longrightarrow>
     foldl vec_add x xs ! j = x ! j + sum_list (map (\<lambda>r. r ! j) xs)"
  by (induction xs arbitrary: x) (simp_all add: length_vec_add vec_add_nth)

lemma vec_mean_nth:
  assumes "xs \<noteq> []" and "list_all (\<lambda>r. length r = d) xs" and "j < d"
  shows "vec_mean xs ! j = sum_list (map (\<lambda>r. r ! j) xs) / real (length xs)"
proof -
  from assms(1) obtain x rest where xs: "xs = x # rest" by (cases xs) auto
  with assms have l: "length x = d" "list_all (\<lambda>r. length r = d) rest" by simp_all
  have "length (foldl vec_add x rest) = d" using l by (rule length_foldl_vec_add)
  then show ?thesis
    using foldl_vec_add_nth [OF l assms(3)] assms(3) by (simp add: vec_mean_def xs)
qed

section \<open>The graph convolution layer\<close>

lemma inbox_map: "inbox g (map f (edges g)) v = map f (filter (\<lambda>e. snd e = v) (edges g))"
proof -
  have "map snd (filter (\<lambda>p. snd (fst p) = v) (zip es (map f es))) = map f (filter (\<lambda>e. snd e = v) es)" for es
    by (induction es) simp_all
  then show ?thesis by (simp add: inbox_def)
qed

lemma sequence_Inr: "sequence (map (\<lambda>x. Inr (f x)) xs) = Inr (map f xs)"
  by (induction xs) simp_all

lemma fold_update_nth:
  "i < length c \<Longrightarrow> fold (\<lambda>v c. c[v := r v]) vs c ! i = (if i \<in> set vs then r i else c ! i)"
  by (induction vs arbitrary: c) (auto simp: nth_list_update)

lemma length_fold_update: "length (fold (\<lambda>v c. c[v := r v]) vs c) = length c"
  by (induction vs arbitrary: c) simp_all

lemma write_rows_h:
  "fr ''h'' = Some c \<Longrightarrow>
   write_rows n (map (\<lambda>v. (v, [(''h'', [r v])])) vs) fr = fr(''h'' \<mapsto> fold (\<lambda>v c. c[v := r v]) vs c)"
proof (induction vs arbitrary: fr c)
  case Nil
  then show ?case by (auto simp: write_rows_def)
next
  case (Cons v vs)
  have step: "write_rows n (map (\<lambda>v. (v, [(''h'', [r v])])) (v # vs)) fr =
      write_rows n (map (\<lambda>v. (v, [(''h'', [r v])])) vs) (fr(''h'' \<mapsto> c[v := r v]))"
    using Cons.prems by (simp add: write_rows_def write_row_def)
  show ?case
    unfolding step by (subst Cons.IH [where c = "c[v := r v]"]) simp_all
qed

lemma zip_map_same: "zip xs (map f xs) = map (\<lambda>x. (x, f x)) xs"
  by (induction xs) simp_all

lemma reduce_one:
  "reduce \<lparr>data = d, mailbox = mailbox_of g [(''m'', m)] v\<rparr> = Inr [(''h'', [vec_mean (inbox g m v)])]"
  by (simp add: reduce_def mailbox_of_def torch_mean_1_def)

lemma msg_h: "ndata g ''h'' = Some h \<Longrightarrow> msg g = Inr [(''m'', map (\<lambda>e. h ! fst e) (edges g))]"
  by (simp add: msg_def copy_src_def)

lemma in_degree_no_edges: "edges g = [] \<Longrightarrow> in_degree g v = 0"
  by (simp add: in_degree_def)

lemma receivers_no_edges: "edges g = [] \<Longrightarrow> receivers g = []"
  by (simp add: receivers_def in_degree_no_edges)

lemma aggregated_column:
  assumes "length h = num_nodes g"
  shows "fold (\<lambda>v c. c[v := neighbour_mean g h v])
           (receivers g @ filter (\<lambda>v. in_degree g v = 0) [0..<num_nodes g]) h
         = map (neighbour_mean g h) [0..<num_nodes g]"
  using assms
  by (intro nth_equalityI) (auto simp: length_fold_update fold_update_nth receivers_def)

lemma no_receivers_in_degree:
  "receivers g = [] \<Longrightarrow> v < num_nodes g \<Longrightarrow> in_degree g v = 0"
  by (auto simp: receivers_def filter_empty_conv)

lemma no_receivers_column:
  assumes "receivers g = []" and "length h = num_nodes g"
  shows "map (neighbour_mean g h) [0..<num_nodes g] = h"
proof -
  have "map (neighbour_mean g h) [0..<num_nodes g] = map ((!) h) [0..<length h]"
    using assms by (simp add: neighbour_mean_def no_receivers_in_degree)
  also have "\<dots> = h" by (rule map_nth)
  finally show ?thesis .
qed

lemma write_rows_nothing: "write_rows n (map (\<lambda>v. (v, [])) zs) fr = fr"
  by (induction zs) (simp_all add: write_rows_def)

lemma update_all_msg_reduce:
  assumes h: "ndata g ''h'' = Some h" and len: "length h = num_nodes g"
  shows "update_all msg reduce g =
           (Inr (), g\<lparr>ndata := (ndata g)(''h'' \<mapsto> map (neighbour_mean g h) [0..<num_nodes g])\<rparr>)"
proof -
  let ?zero = "filter (\<lambda>v. in_degree g v = 0) [0..<num_nodes g]"
  let ?m = "map (\<lambda>e. h ! fst e) (edges g)"
  let ?outs = "map (\<lambda>v. [(''h'', [received_mean g h v])]) (receivers g)"
  have same: "(ndata g)(''h'' \<mapsto> h) = ndata g" using h by (rule map_upd_triv)
  have outs: "sequence (map (\<lambda>v. reduce \<lparr>data = rows_of (ndata g) v,
                  mailbox = mailbox_of g [(''m'', ?m)] v\<rparr>) (receivers g)) = Inr ?outs"
    by (simp only: reduce_one inbox_map sequence_Inr received_mean_def)
  show ?thesis
  proof (cases "receivers g")
    case Nil
    note col = no_receivers_column [OF Nil len]
    show ?thesis
    proof (cases "edges g = []")
      case True
      then show ?thesis by (simp add: update_all_def col same)
    next
      case False
      have "write_rows (num_nodes g) (zip (receivers g) ?outs @
            map (\<lambda>v. (v, zero_feat ?outs)) ?zero) (ndata g) = ndata g"
        using Nil by (simp add: zero_feat_def write_rows_nothing)
      then show ?thesis
        using False Nil
        by (simp add: update_all_def msg_h [OF h] outs Let_def col same del: zip_append)
    qed
  next
    case (Cons u us)
    then have "u \<in> set (receivers g)" by simp
    then have "0 < in_degree g u" by (simp add: receivers_def)
    then have ne: "edges g \<noteq> []" by (auto simp: in_degree_def)
    have zf: "map (\<lambda>v. (v, zero_feat ?outs)) ?zero =
        map (\<lambda>v. (v, [(''h'', [neighbour_mean g h v])])) ?zero"
      using Cons by (simp add: zero_feat_def neighbour_mean_def)
    have rc: "zip (receivers g) ?outs =
        map (\<lambda>v. (v, [(''h'', [neighbour_mean g h v])])) (receivers g)"
      unfolding zip_map_same by (simp add: neighbour_mean_def receivers_def)
    have wr: "write_rows (num_nodes g) (zip (receivers g) ?outs @
          map (\<lambda>v. (v, zero_feat ?outs)) ?zero) (ndata g)
        = (ndata g)(''h'' \<mapsto> map (neighbour_mean g h) [0..<num_nodes g])"
      unfolding zf rc map_append [symmetric]
      using write_rows_h [where fr = "ndata g" and c = h and n = "num_nodes g"
          and r = "neighbour_mean g h" and vs = "receivers g @ ?zero"]
        h aggregated_column [OF len]
      by simp
    show ?thesis
      using ne by (simp add: update_all_def msg_h [OF h] outs wr Let_def list_all_iff)
  qed
qed

lemma apply_nodes_apply_mod:
  assumes "ndata g ''h'' = Some x"
  shows "apply_nodes (NodeApplyModule_forward m) g =
     (if \<not> list_all (\<lambda>r. length r = in_features (linear m)) x then (Inl RuntimeError, g)
      else if length (activation m (map (Linear_row (linear m)) x)) \<noteq> num_nodes g
        then (Inl DGLError, g)
      else (Inr (), g\<lparr>ndata := (ndata g)(''h'' \<mapsto> activation m (map (Linear_row (linear m)) x))\<rparr>))"
  using assms
  by (simp add: apply_nodes_def NodeApplyModule_forward_def Linear_forward_def Let_def)

lemma in_degree_ndata [simp]: "in_degree (g\<lparr>ndata := x\<rparr>) = in_degree g"
  by (intro ext) (simp add: in_degree_def)

lemma receivers_ndata [simp]: "receivers (g\<lparr>ndata := x\<rparr>) = receivers g"
  by (simp add: receivers_def)

lemma received_mean_ndata [simp]: "received_mean (g\<lparr>ndata := x\<rparr>) = received_mean g"
  by (intro ext) (simp add: received_mean_def)

lemma neighbour_mean_ndata [simp]: "neighbour_mean (g\<lparr>ndata := x\<rparr>) = neighbour_mean g"
  by (intro ext) (simp add: neighbour_mean_def split: list.splits)

lemma graph_conv_ndata [simp]: "graph_conv m (g\<lparr>ndata := x\<rparr>) = graph_conv m g"
  by (intro ext) (simp add: graph_conv_def)

lemmas gcn_eval =
  graph_conv_def neighbour_mean_def received_mean_def receivers_def in_degree_def vec_mean_def
  vec_add_def relu_def Linear_row_def dot_def upt_conv_Cons

lemma GCN_forward_eq:
  "GCN_forward self g feature =
     (let h1 = map (neighbour_mean g feature) [0..<num_nodes g];
          g2 = g\<lparr>ndata := (ndata g)(''h'' \<mapsto> h1)\<rparr>
      in if length feature \<noteq> num_nodes g then (Inl DGLError, g)
         else if \<not> list_all (\<lambda>r. length r = in_features (linear (apply_mod self))) h1
           then (Inl RuntimeError, g2)
         else if length (graph_conv (apply_mod self) g feature) \<noteq> num_nodes g
           then (Inl DGLError, g2)
         else (Inr (graph_conv (apply_mod self) g feature),
               g\<lparr>ndata := (ndata g)(''h'' := None)\<rparr>))"
proof (cases "length feature = num_nodes g")
  case False
  then show ?thesis by (simp add: GCN_forward_def set_ndata_def Let_def)
next
  case True
  let ?g1 = "g\<lparr>ndata := (ndata g)(''h'' \<mapsto> feature)\<rparr>"
  let ?h1 = "map (neighbour_mean g feature) [0..<num_nodes g]"
  let ?g2 = "g\<lparr>ndata := (ndata g)(''h'' \<mapsto> ?h1)\<rparr>"
  have s1: "set_ndata ''h'' feature g = (Inr (), ?g1)"
    using True by (simp add: set_ndata_def)
  have nm: "neighbour_mean ?g1 feature = neighbour_mean g feature"
    by simp
  have s2: "update_all msg reduce ?g1 = (Inr (), ?g2)"
    using update_all_msg_reduce [of ?g1 feature] True by (simp add: nm)
  have s3: "apply_nodes (NodeApplyModule_forward (apply_mod self)) ?g2 =
     (if \<not> list_all (\<lambda>r. length r = in_features (linear (apply_mod self))) ?h1 then (Inl RuntimeError, ?g2)
      else if length (graph_conv (apply_mod self) g feature) \<noteq> num_nodes g
        then (Inl DGLError, ?g2)
      else (Inr (), g\<lparr>ndata := (ndata g)(''h'' \<mapsto> graph_conv (apply_mod self) g feature)\<rparr>))"
    using apply_nodes_apply_mod [of ?g2 ?h1 "apply_mod self"] by (simp add: graph_conv_def)
  show ?thesis
    using True by (simp add: GCN_forward_def s1 s2 s3 pop_ndata_def Let_def)
qed

lemma neighbour_mean_is_mean:
  assumes "0 < in_degree g v" and "list_all (\<lambda>e. length (feature ! fst e) = d) (edges g)"
    and "j < d"
  shows "neighbour_mean g feature v ! j =
           sum_list (map (\<lambda>e. feature ! fst e ! j) (filter (\<lambda>e. snd e = v) (edges g)))
             / real (in_degree g v)"
proof -
  let ?ms = "map (\<lambda>e. feature ! fst e) (filter (\<lambda>e. snd e = v) (edges g))"
  have ne: "?ms \<noteq> []" using assms(1) by (simp add: in_degree_def)
  have w: "list_all (\<lambda>r. length r = d) ?ms"
    using assms(2) by (auto simp: list_all_iff)
  from vec_mean_nth [OF ne w assms(3)] assms(1)
  show ?thesis by (simp add: neighbour_mean_def received_mean_def in_degree_def comp_def)
qed

section \<open>Claims about \<open>collate\<close>\<close>




text \<open>
  C3: \<open>collate\<close> returns a merged graph exactly when the library's batching function,
  called on the list of the graphs, returns that graph; it is paired with the tensor of
  the labels.  The batching function is arbitrary here, so no merging is done by
  \<open>collate\<close> itself.
\<close>

theorem collate_is_dgl_batch:
  "collate dgl_batch (map pair samples) = Inr (bg, t) \<longleftrightarrow>
     samples \<noteq> [] \<and> dgl_batch (map fst samples) = Inr bg \<and> t = map snd samples"
proof (cases "samples = []")
  case True
  then show ?thesis by (simp add: collate_def zip_star_Nil)
next
  case False
  then show ?thesis by (auto simp: collate_pairs split: sum.splits)
qed

theorem collate_is_dgl_batch_witness:
  "collate (\<lambda>gs. Inr (sum_list gs) :: error + nat) (map pair ts0) = Inr (12, [0, 2])"
  by (rule collate_is_dgl_batch [THEN iffD2]) (simp add: ts0_def)

section \<open>Claims about the graph convolution layer\<close>

text \<open>
  C1: the forward pass of the layer is the message send, which copies the feature of
  the source node of every edge, the reduce, which overwrites the feature of a node by
  the arithmetic mean of the messages it received, and the linear transform with the
  activation; it returns the node features so obtained and nothing else.  A node that
  received no message has no such mean: the library does not call the reduce function
  for it.  Where the features have one width \<open>d\<close>, the entry \<open>j\<close> of the mean at a node
  is the sum of the entries \<open>j\<close> of the features of the sources of its incoming edges,
  divided by its in-degree.  The call fails when the feature tensor has not one row per node, or when the
  rows do not fit the linear layer.  With \<open>relu\<close> as activation every node \<open>v\<close> gets
  \<open>max 0 (W h + b)\<close>, entry by entry, where \<open>h\<close> is what \<open>v\<close> holds after the reduce.
\<close>

theorem GCN_forward_send_mean_transform:
  "GCN_forward self g feature =
     (let h1 = map (neighbour_mean g feature) [0..<num_nodes g];
          g2 = g\<lparr>ndata := (ndata g)(''h'' \<mapsto> h1)\<rparr>
      in if length feature \<noteq> num_nodes g then (Inl DGLError, g)
         else if \<not> list_all (\<lambda>r. length r = in_features (linear (apply_mod self))) h1
           then (Inl RuntimeError, g2)
         else if length (graph_conv (apply_mod self) g feature) \<noteq> num_nodes g
           then (Inl DGLError, g2)
         else (Inr (graph_conv (apply_mod self) g feature),
               g\<lparr>ndata := (ndata g)(''h'' := None)\<rparr>)) \<and>
   graph_conv (apply_mod (GCN_init in_feats out_feats relu W b)) g feature =
     map (\<lambda>v. map (max 0) (Linear_row (nn_Linear in_feats out_feats W b) (neighbour_mean g feature v)))
       [0..<num_nodes g] \<and>
   (0 < in_degree g v \<and> list_all (\<lambda>e. length (feature ! fst e) = d) (edges g) \<and> j < d \<longrightarrow>
      neighbour_mean g feature v ! j =
        sum_list (map (\<lambda>e. feature ! fst e ! j) (filter (\<lambda>e. snd e = v) (edges g)))
          / real (in_degree g v))"
  using neighbour_mean_is_mean [of g v feature d j]
  by (simp add: GCN_forward_eq graph_conv_def GCN_init_def NodeApplyModule_init_def relu_def)

theorem GCN_forward_send_mean_transform_witness:
  "GCN_forward conv7 g7 [[1], [3]] =
     (Inr [[1, 0], [2, 0]], g7\<lparr>ndata := (ndata g7)(''h'' := None)\<rparr>) \<and>
   in_degree g7 1 = 2 \<and> neighbour_mean g7 [[1], [3]] 1 ! 0 = (3 + 1) / 2"
proof -
  note t = GCN_forward_send_mean_transform [of conv7 g7 "[[1], [3]]" _ _ _ _ 1 1 0]
  have d: "in_degree g7 1 = 2" by (simp add: g7_def in_degree_def)
  have w: "list_all (\<lambda>e. length ([[1], [3 :: real]] ! fst e) = 1) (edges g7)"
    by (simp add: g7_def)
  have "neighbour_mean g7 [[1], [3]] 1 ! 0 =
      sum_list (map (\<lambda>e. [[1], [3]] ! fst e ! 0) (filter (\<lambda>e. snd e = 1) (edges g7)))
        / real (in_degree g7 1)"
    using t [THEN conjunct2, THEN conjunct2] d w by simp
  then have m: "neighbour_mean g7 [[1], [3]] 1 ! 0 = (3 + 1) / 2"
    by (simp add: g7_def in_degree_def)
  have "GCN_forward conv7 g7 [[1], [3]] =
     (Inr [[1, 0], [2, 0]], g7\<lparr>ndata := (ndata g7)(''h'' := None)\<rparr>)"
    using t [THEN conjunct1]
    by (simp add: conv7_def g7_def GCN_init_def NodeApplyModule_init_def nn_Linear_def gcn_eval)
  with d m show ?thesis by simp
qed

lemma GCN_forward_pops:
  "fst (GCN_forward self g feature) = Inr y \<Longrightarrow>
     snd (GCN_forward self g feature) = g\<lparr>ndata := (ndata g)(''h'' := None)\<rparr>"
  by (simp add: GCN_forward_eq Let_def split: if_splits)

lemma GCN_forward_g7:
  "GCN_forward (GCN_init 1 2 relu [[1], [-1]] [0, 1]) g7 [[1], [3]] =
     (Inr [[1, 0], [2, 0]], g7\<lparr>ndata := (ndata g7)(''h'' := None)\<rparr>)"
  by (simp add: GCN_forward_eq g7_def GCN_init_def NodeApplyModule_init_def nn_Linear_def gcn_eval)

text \<open>
  C10: after a call of the forward pass that returns normally, the node data of the
  graph has no field \<open>h\<close>, whether or not it had one before.
\<close>

theorem GCN_forward_removes_h:
  "fst (GCN_forward self g feature) = Inr y \<Longrightarrow>
     ndata (snd (GCN_forward self g feature)) ''h'' = None"
  by (simp add: GCN_forward_pops)

theorem GCN_forward_removes_h_witness:
  "ndata g7 ''h'' = Some [[7], [7]] \<and>
   fst (GCN_forward (GCN_init 1 2 relu [[1], [-1]] [0, 1]) g7 [[1], [3]]) = Inr [[1, 0], [2, 0]] \<and>
   ndata (snd (GCN_forward (GCN_init 1 2 relu [[1], [-1]] [0, 1]) g7 [[1], [3]])) ''h'' = None"
proof -
  have r: "fst (GCN_forward (GCN_init 1 2 relu [[1], [-1]] [0, 1]) g7 [[1], [3]]) = Inr [[1, 0], [2, 0]]"
    by (simp only: GCN_forward_g7 fst_conv)
  from GCN_forward_removes_h [OF r] r show ?thesis by (simp add: g7_def)
qed

section \<open>The classifier\<close>

lemma width_nth: "width d t \<Longrightarrow> i < length t \<Longrightarrow> length (t ! i) = d"
  by (simp add: width_def list_all_length)

lemma length_received_mean:
  assumes w: "width d feature" and len: "length feature = num_nodes g"
    and e: "list_all (\<lambda>e. fst e < num_nodes g \<and> snd e < num_nodes g) (edges g)"
    and v: "0 < in_degree g v"
  shows "length (received_mean g feature v) = d"
proof -
  let ?ms = "map (\<lambda>e. feature ! fst e) (filter (\<lambda>e. snd e = v) (edges g))"
  have ne: "?ms \<noteq> []" using v by (simp add: in_degree_def)
  have "list_all (\<lambda>r. length r = d) ?ms"
    using e w len by (auto simp: list_all_iff width_def)
  with ne have "length (vec_mean ?ms) = d" by (rule length_vec_mean)
  then show ?thesis by (simp add: received_mean_def)
qed

lemma length_neighbour_mean:
  assumes w: "width d feature" and len: "length feature = num_nodes g"
    and e: "list_all (\<lambda>e. fst e < num_nodes g \<and> snd e < num_nodes g) (edges g)"
    and v: "v < num_nodes g"
  shows "length (neighbour_mean g feature v) = d"
proof (cases "0 < in_degree g v")
  case True
  with length_received_mean [OF w len e] show ?thesis by (simp add: neighbour_mean_def)
next
  case False
  show ?thesis
  proof (cases "receivers g")
    case Nil
    with False show ?thesis using w len v by (simp add: neighbour_mean_def width_nth)
  next
    case (Cons u us)
    then have "u \<in> set (receivers g)" by simp
    then have "0 < in_degree g u" by (simp add: receivers_def)
    from length_received_mean [OF w len e this] False Cons
    show ?thesis by (simp add: neighbour_mean_def)
  qed
qed

lemma width_neighbour_means:
  assumes "width d feature" "length feature = num_nodes g"
    "list_all (\<lambda>e. fst e < num_nodes g \<and> snd e < num_nodes g) (edges g)"
  shows "width d (map (neighbour_mean g feature) [0..<num_nodes g])"
  using length_neighbour_mean [OF assms] by (simp add: width_def list_all_iff)

lemma length_Linear_row: "length (Linear_row L x) = min (length (weight L)) (length (bias L))"
  by (simp add: Linear_row_def)

lemma width_relu_Linear:
  "length (weight L) = d \<Longrightarrow> length (bias L) = d \<Longrightarrow> width d (relu (map (Linear_row L) t))"
  by (simp add: width_def relu_def list_all_iff length_Linear_row)

lemma length_relu: "length (relu t) = length t"
  by (simp add: relu_def)

lemma GCN_forward_relu:
  assumes w: "width in_feats feature" and len: "length feature = num_nodes g"
    and e: "list_all (\<lambda>e. fst e < num_nodes g \<and> snd e < num_nodes g) (edges g)"
    and s: "shaped in_feats out_feats W b"
  shows "GCN_forward (GCN_init in_feats out_feats relu W b) g feature =
           (Inr (graph_conv (apply_mod (GCN_init in_feats out_feats relu W b)) g feature),
            g\<lparr>ndata := (ndata g)(''h'' := None)\<rparr>)"
    and "width out_feats (graph_conv (apply_mod (GCN_init in_feats out_feats relu W b)) g feature)"
    and "length (graph_conv (apply_mod (GCN_init in_feats out_feats relu W b)) g feature) = num_nodes g"
proof -
  let ?m = "apply_mod (GCN_init in_feats out_feats relu W b)"
  have lin: "in_features (linear ?m) = in_feats" "weight (linear ?m) = W" "bias (linear ?m) = b"
    "activation ?m = relu"
    by (simp_all add: GCN_init_def NodeApplyModule_init_def nn_Linear_def)
  have w1: "list_all (\<lambda>r. length r = in_feats) (map (neighbour_mean g feature) [0..<num_nodes g])"
    using width_neighbour_means [OF w len e] by (simp add: width_def)
  show l: "length (graph_conv ?m g feature) = num_nodes g"
    by (simp add: graph_conv_def lin length_relu)
  show "width out_feats (graph_conv ?m g feature)"
    unfolding graph_conv_def lin
    using s by (intro width_relu_Linear) (simp_all add: shaped_def lin)
  show "GCN_forward (GCN_init in_feats out_feats relu W b) g feature =
           (Inr (graph_conv ?m g feature), g\<lparr>ndata := (ndata g)(''h'' := None)\<rparr>)"
    using len w1 l by (simp add: GCN_forward_eq Let_def lin)
qed

lemma segments_width:
  "list_all (\<lambda>k. 0 < k) ns \<Longrightarrow> sum_list ns \<le> length xs \<Longrightarrow> width d xs \<Longrightarrow>
     list_all (\<lambda>seg. seg \<noteq> [] \<and> list_all (\<lambda>r. length r = d) seg) (segments ns xs)"
proof (induction ns arbitrary: xs)
  case Nil
  then show ?case by simp
next
  case (Cons n ns)
  have a: "take n xs \<noteq> []" using Cons.prems by auto
  have b: "list_all (\<lambda>r. length r = d) (take n xs)"
    using Cons.prems(3) by (auto simp: width_def list_all_iff dest: in_set_takeD)
  have c: "width d (drop n xs)"
    using Cons.prems(3) by (auto simp: width_def list_all_iff dest: in_set_dropD)
  have "list_all (\<lambda>seg. seg \<noteq> [] \<and> list_all (\<lambda>r. length r = d) seg) (segments ns (drop n xs))"
    using Cons.prems c by (intro Cons.IH) simp_all
  with a b show ?case by simp
qed

lemma width_segment_means:
  assumes "list_all (\<lambda>k. 0 < k) ns" "sum_list ns \<le> length xs" "width d xs"
  shows "list_all (\<lambda>r. length r = d) (map vec_mean (segments ns xs))"
  using segments_width [OF assms] by (auto simp: list_all_iff length_vec_mean)

text \<open>The readout of a batch whose second graph has no nodes: its row is a row of zeros.\<close>

lemma mean_nodes_graph_without_nodes:
  "mean_nodes \<lparr>num_nodes = 2, edges = [(0, 0), (1, 1)], batch_num_nodes = [2, 0],
               ndata = (\<lambda>k. None)(''h'' \<mapsto> [[2, 4], [6, 8]])\<rparr> ''h'' = Inr [[4, 6], [0, 0]]"
  by (simp add: mean_nodes_def row_width_def segment_mean_def vec_mean_def vec_add_def
      numeral_2_eq_2)

lemma Classifier_forward_eq:
  assumes g: "wf_batched g" and i: "in_dim = 1"
    and s1: "shaped in_dim hidden_dim W1 b1" and s2: "shaped hidden_dim hidden_dim W2 b2"
  shows "Classifier_forward (Classifier_init in_dim hidden_dim n_classes W1 b1 W2 b2 Wc bc) g =
     (Inr (snd (classifier_logits in_dim hidden_dim n_classes W1 b1 W2 b2 Wc bc g)),
      g\<lparr>ndata := (ndata g)(''h'' \<mapsto> fst (classifier_logits in_dim hidden_dim n_classes W1 b1 W2 b2 Wc bc g))\<rparr>)"
proof -
  let ?l1 = "GCN_init in_dim hidden_dim relu W1 b1"
  let ?l2 = "GCN_init hidden_dim hidden_dim relu W2 b2"
  let ?d = "degree_features g"
  let ?h1 = "graph_conv (apply_mod ?l1) g ?d"
  let ?h2 = "graph_conv (apply_mod ?l2) g ?h1"
  let ?g1 = "g\<lparr>ndata := (ndata g)(''h'' := None)\<rparr>"
  have e: "list_all (\<lambda>e. fst e < num_nodes g \<and> snd e < num_nodes g) (edges g)"
    and pos: "list_all (\<lambda>k. 0 < k) (batch_num_nodes g)"
    and tot: "sum_list (batch_num_nodes g) = num_nodes g"
    using g by (simp_all add: wf_batched_def)
  have d: "width in_dim ?d" "length ?d = num_nodes g"
    by (simp_all add: i degree_features_def in_degrees_def width_def list_all_iff)
  note r1 = GCN_forward_relu [OF d e s1]
  have e1: "list_all (\<lambda>e. fst e < num_nodes ?g1 \<and> snd e < num_nodes ?g1) (edges ?g1)"
    using e by simp
  have len1: "length ?h1 = num_nodes ?g1" using r1(3) by simp
  note r2 = GCN_forward_relu [OF r1(2) len1 e1 s2]
  have layers: "apply_layers [?l1, ?l2] g ?d = (Inr ?h2, ?g1)"
    using r1(1) r2(1) by simp
  have len2: "length ?h2 = num_nodes g" using r2(3) by simp
  have w2: "width hidden_dim ?h2" using r2(2) by simp
  have hg: "list_all (\<lambda>r. length r = hidden_dim) (map vec_mean (segments (batch_num_nodes g) ?h2))"
    using pos tot len2 w2 by (intro width_segment_means) simp_all
  have sm: "map (segment_mean d) (segments (batch_num_nodes g) ?h2) =
      map vec_mean (segments (batch_num_nodes g) ?h2)" for d
    using segments_width [OF pos _ w2] tot len2
    by (intro map_cong) (auto simp: list_all_iff segment_mean_def)
  have am: "apply_mod ?l1 = NodeApplyModule_init in_dim hidden_dim relu W1 b1"
    "apply_mod ?l2 = NodeApplyModule_init hidden_dim hidden_dim relu W2 b2"
    by (simp_all add: GCN_init_def)
  show ?thesis
    using layers len2 hg
    by (simp add: Classifier_forward_def Classifier_init_def degree_features_def [symmetric]
        set_ndata_def mean_nodes_def sm [unfolded am] Linear_forward_def nn_Linear_def
        classifier_logits_def Let_def am)
qed

lemma same_but_h_refl: "same_but_h g g"
  by (simp add: same_but_h_def)

lemma same_but_h_trans: "same_but_h g g1 \<Longrightarrow> same_but_h g1 g2 \<Longrightarrow> same_but_h g g2"
  by (simp add: same_but_h_def)

lemma GCN_forward_frame: "same_but_h g (snd (GCN_forward self g feature))"
  by (simp add: GCN_forward_eq Let_def same_but_h_def)

lemma apply_layers_frame: "same_but_h g (snd (apply_layers convs g h))"
proof (induction convs arbitrary: g h)
  case Nil
  then show ?case by (simp add: same_but_h_refl)
next
  case (Cons conv convs)
  obtain r g1 where f: "GCN_forward conv g h = (r, g1)" by (cases "GCN_forward conv g h")
  have g1: "same_but_h g g1" using GCN_forward_frame [of g conv h] f by simp
  show ?case
  proof (cases r)
    case (Inl e)
    then show ?thesis using f g1 by simp
  next
    case (Inr h1)
    then show ?thesis
      using f same_but_h_trans [OF g1 Cons.IH [of g1 h1]] by simp
  qed
qed

lemma Classifier_forward_frame:
  "same_but_h g (snd (Classifier_forward self g)) \<and>
   (fst (Classifier_forward self g) = Inr y \<longrightarrow>
      (\<exists>h. fst (apply_layers (layers self) g (map (\<lambda>d. [real d]) (in_degrees g))) = Inr h \<and>
           ndata (snd (Classifier_forward self g)) ''h'' = Some h))"
proof -
  let ?d = "map (\<lambda>d. [real d]) (in_degrees g)"
  obtain r g1 where a: "apply_layers (layers self) g ?d = (r, g1)"
    by (cases "apply_layers (layers self) g ?d")
  have g1: "same_but_h g g1" using apply_layers_frame [of g "layers self" ?d] a by simp
  show ?thesis
  proof (cases r)
    case (Inl e)
    then show ?thesis using a g1 by (simp add: Classifier_forward_def)
  next
    case (Inr h)
    then show ?thesis
      using a g1
      by (auto simp: Classifier_forward_def set_ndata_def mean_nodes_def same_but_h_def
          split: sum.splits)
  qed
qed

lemma classifier_logits_c0_g0:
  "classifier_logits 1 2 2 [[1], [-1]] [0, 1] [[1, 0], [0, 1]] [0, 1] [[1, 1], [1, -1]] [0, 0] g0
     = ([[2, 1], [2, 1], [1, 1]], [[3, 1], [2, 0]])"
  by (simp add: classifier_logits_def degree_features_def in_degrees_def g0_def NodeApplyModule_init_def
      nn_Linear_def gcn_eval)

lemma wf_batched_g0: "wf_batched g0"
  by (simp add: wf_batched_def g0_def)

lemma shaped_c0: "shaped 1 2 [[1], [-1]] [0, 1]" "shaped 2 2 [[1, 0], [0, 1]] [0, 1]"
  by (simp_all add: shaped_def)

lemma Classifier_forward_c0_g0:
  "Classifier_forward c0 g0 =
     (Inr [[3, 1], [2, 0]], g0\<lparr>ndata := (ndata g0)(''h'' \<mapsto> [[2, 1], [2, 1], [1, 1]])\<rparr>)"
  unfolding c0_def Classifier_forward_eq [OF wf_batched_g0 refl shaped_c0] classifier_logits_c0_g0
  by simp

text \<open>
  C5: the classifier built by the constructor has two graph convolution layers.  On a
  batched graph it applies them one after the other to the node features, takes the
  mean over the nodes of each graph, applies the linear classification layer and
  returns the logits.
\<close>

theorem Classifier_forward_two_convs_readout_linear:
  assumes "wf_batched g" and "shaped 1 hidden_dim W1 b1" and "shaped hidden_dim hidden_dim W2 b2"
  shows "length (layers (Classifier_init 1 hidden_dim n_classes W1 b1 W2 b2 Wc bc)) = 2 \<and>
         fst (Classifier_forward (Classifier_init 1 hidden_dim n_classes W1 b1 W2 b2 Wc bc) g) =
           Inr (snd (classifier_logits 1 hidden_dim n_classes W1 b1 W2 b2 Wc bc g))"
  using Classifier_forward_eq [OF assms(1) refl assms(2,3)]
  by (simp add: Classifier_init_def)

theorem Classifier_forward_two_convs_readout_linear_witness:
  "wf_batched g0 \<and> shaped 1 2 [[1], [-1]] [0, 1] \<and> shaped 2 2 [[1, 0], [0, 1]] [0, 1] \<and>
   length (layers c0) = 2 \<and> fst (Classifier_forward c0 g0) = Inr [[3, 1], [2, 0]]"
  using Classifier_forward_two_convs_readout_linear [OF wf_batched_g0 shaped_c0,
      of 2 "[[1, 1], [1, -1]]" "[0, 0]"]
    wf_batched_g0 shaped_c0
  unfolding classifier_logits_c0_g0 c0_def by simp

text \<open>
  C2, as stated, fails: the forward pass of the model stores the node features of the
  last layer in the node data of the batched graph it is given, and leaves them there.
\<close>

theorem Classifier_forward_changes_ndata:
  "fst (Classifier_forward c0 g0) = Inr [[3, 1], [2, 0]] \<and>
   ndata (snd (Classifier_forward c0 g0)) \<noteq> ndata g0"
proof -
  have "ndata (snd (Classifier_forward c0 g0)) ''h'' \<noteq> ndata g0 ''h''"
    by (simp add: Classifier_forward_c0_g0) (simp add: g0_def)
  then have "ndata (snd (Classifier_forward c0 g0)) \<noteq> ndata g0" by auto
  then show ?thesis by (simp add: Classifier_forward_c0_g0)
qed

text \<open>
  C2, amended: a forward pass of the model changes nothing of the batched graph but the
  field \<open>h\<close> of its node data.  The nodes, the edges, the sizes of the merged graphs
  and every other field are as before the call, and after a normal return \<open>h\<close> holds the
  node features the last layer computed.
\<close>

theorem Classifier_forward_changes_only_h:
  "same_but_h g (snd (Classifier_forward self g)) \<and>
   (fst (Classifier_forward self g) = Inr y \<longrightarrow>
      (\<exists>h. fst (apply_layers (layers self) g (map (\<lambda>d. [real d]) (in_degrees g))) = Inr h \<and>
           ndata (snd (Classifier_forward self g)) ''h'' = Some h))"
  by (rule Classifier_forward_frame)

theorem Classifier_forward_changes_only_h_witness:
  "same_but_h g0 (snd (Classifier_forward c0 g0)) \<and>
   fst (Classifier_forward c0 g0) = Inr [[3, 1], [2, 0]] \<and>
   ndata (snd (Classifier_forward c0 g0)) ''h'' = Some [[2, 1], [2, 1], [1, 1]]"
  using Classifier_forward_changes_only_h [of g0 c0 "[[3, 1], [2, 0]]"]
  by (simp add: Classifier_forward_c0_g0)





section \<open>The training loop\<close>

lemma train_step_ok:
  assumes "train_step lib i b s = (Inr u, s')"
  shows "\<exists>bl x. collate (batch_graphs lib) (map pair b) = Inr bl \<and>
     gradient_step lib bl (world s) = Some (x, world s') \<and>
     calls s' = calls s @ minibatch_calls bl x \<and>
     epoch_loss s' = epoch_loss s + x \<and> iter s' = Some i \<and>
     stdout s' = stdout s \<and> epoch_losses s' = epoch_losses s"
proof -
  from assms obtain bg label prediction w1 loss w2 w3 w4 w5 where
    c: "collate (batch_graphs lib) (map pair b) = Inr (bg, label)" and
    m: "model lib bg (world s) = (Inr prediction, w1)" and
    l: "loss_func lib prediction label w1 = (Inr loss, w2)" and
    z: "zero_grad lib w2 = (Inr (), w3)" and
    bw: "backward lib loss w3 = (Inr (), w4)" and
    st: "step lib w4 = (Inr (), w5)" and
    s': "s' = s\<lparr>iter := Some i, world := w5, epoch_loss := epoch_loss s + item lib loss,
                 calls := calls s @ [Forward bg, Loss label, ZeroGrad, Backward, Step,
                                     Item (item lib loss)]\<rparr>"
    by (auto simp: train_step_def and_then_def lib_call_def split: sum.splits prod.splits)
  have g: "gradient_step lib (bg, label) (world s) = Some (item lib loss, w5)"
    by (simp add: gradient_step_def m l z bw st)
  show ?thesis
    by (intro exI [of _ "(bg, label)"] exI [of _ "item lib loss"])
      (simp add: c g s' minibatch_calls_def)
qed

lemma train_batches_ok:
  "train_batches lib i bs s = (Inr u, s') \<Longrightarrow>
   \<exists>bls xs. collated lib bs = map Inr bls \<and> length xs = length bs \<and>
     gradient_steps lib bls (world s) = Some (xs, world s') \<and>
     calls s' = calls s @ batches_calls bls xs \<and>
     epoch_loss s' = epoch_loss s + sum_list xs \<and>
     iter s' = (if bs = [] then iter s else Some (i + length bs - 1)) \<and>
     stdout s' = stdout s \<and> epoch_losses s' = epoch_losses s"
proof (induction bs arbitrary: i s)
  case Nil
  then show ?case by (simp add: collated_def batches_calls_def)
next
  case (Cons b bs)
  from Cons.prems obtain s1 where
    st: "train_step lib i b s = (Inr (), s1)" and
    rest: "train_batches lib (Suc i) bs s1 = (Inr u, s')"
    by (auto simp: and_then_def split: sum.splits prod.splits)
  from train_step_ok [OF st] obtain bl x where
    b: "collate (batch_graphs lib) (map pair b) = Inr bl"
      "gradient_step lib bl (world s) = Some (x, world s1)"
      "calls s1 = calls s @ minibatch_calls bl x"
      "epoch_loss s1 = epoch_loss s + x" "iter s1 = Some i"
      "stdout s1 = stdout s" "epoch_losses s1 = epoch_losses s"
    by blast
  from Cons.IH [OF rest] obtain bls xs where
    r: "collated lib bs = map Inr bls" "length xs = length bs"
      "gradient_steps lib bls (world s1) = Some (xs, world s')"
      "calls s' = calls s1 @ batches_calls bls xs"
      "epoch_loss s' = epoch_loss s1 + sum_list xs"
      "iter s' = (if bs = [] then iter s1 else Some (Suc i + length bs - 1))"
      "stdout s' = stdout s1" "epoch_losses s' = epoch_losses s1"
    by blast
  have "collated lib (b # bs) = map Inr (bl # bls) \<and> length (x # xs) = length (b # bs) \<and>
     gradient_steps lib (bl # bls) (world s) = Some (x # xs, world s') \<and>
     calls s' = calls s @ batches_calls (bl # bls) (x # xs) \<and>
     epoch_loss s' = epoch_loss s + sum_list (x # xs) \<and>
     iter s' = (if b # bs = [] then iter s else Some (i + length (b # bs) - 1)) \<and>
     stdout s' = stdout s \<and> epoch_losses s' = epoch_losses s"
    using b r by (auto simp: collated_def batches_calls_def)
  then show ?case by blast
qed

lemma collated_length: "collated lib bs = map Inr bls \<Longrightarrow> length bls = length bs"
  by (metis collated_def length_map)

lemma train_epoch_ok:
  assumes "train_epoch lib \<lparr>dataset = ts, batch_size = 32\<rparr> e s = (Inr u, s')"
  shows "\<exists>r. epoch_run lib ts e r \<and>
     gradient_steps lib (fst r) (world s) = Some (snd r, world s') \<and>
     calls s' = calls s @ batches_calls (fst r) (snd r) \<and>
     (fst r \<noteq> [] \<longrightarrow> stdout s' = stdout s @ [epoch_line e r])"
proof -
  let ?bs = "loader_batches \<lparr>dataset = ts, batch_size = 32\<rparr> (sampler lib e)"
  from assms obtain s1 where
    tb: "train_batches lib 0 ?bs (s\<lparr>epoch_loss := 0\<rparr>) = (Inr (), s1)" and
    fin: "(case iter s1 of
             None \<Rightarrow> (Inl TypeError, s1)
           | Some i \<Rightarrow>
              (let epoch_loss = epoch_loss s1 / real (i + 1)
               in (Inr (), s1\<lparr>epoch_loss := epoch_loss,
                              stdout := stdout s1 @ [EpochLine e epoch_loss],
                              epoch_losses := epoch_losses s1 @ [epoch_loss]\<rparr>))) = (Inr u, s')"
    by (auto simp: train_epoch_def and_then_def split: sum.splits prod.splits)
  from train_batches_ok [OF tb] obtain bls xs where
    r: "collated lib ?bs = map Inr bls" "length xs = length ?bs"
      "calls s1 = calls s @ batches_calls bls xs"
      "epoch_loss s1 = sum_list xs"
      "iter s1 = (if ?bs = [] then iter s else Some (length ?bs - 1))"
      "stdout s1 = stdout s"
      "gradient_steps lib bls (world s) = Some (xs, world s1)"
    by auto
  have len: "length bls = length ?bs" using r(1) by (rule collated_length)
  from fin obtain i where i: "iter s1 = Some i"
    and s': "s' = s1\<lparr>epoch_loss := epoch_loss s1 / real (i + 1),
                      stdout := stdout s1 @ [EpochLine e (epoch_loss s1 / real (i + 1))],
                      epoch_losses := epoch_losses s1 @ [epoch_loss s1 / real (i + 1)]\<rparr>"
    by (auto simp: Let_def split: option.splits)
  have run: "epoch_run lib ts e (bls, xs)"
    using r(1,2) len by (simp add: epoch_run_def)
  have c: "calls s' = calls s @ batches_calls bls xs"
    using s' r(3) by simp
  have w: "gradient_steps lib bls (world s) = Some (xs, world s')"
    using s' r(7) by simp
  have "stdout s' = stdout s @ [epoch_line e (bls, xs)]" if "bls \<noteq> []"
  proof -
    from that len have ne: "?bs \<noteq> []" by auto
    with r(5) i have "i = length ?bs - 1" by simp
    with ne have "i + 1 = length xs" using r(2) by (cases ?bs) simp_all
    then show ?thesis using s' r(4,6) by (simp add: epoch_line_def)
  qed
  with run c w show ?thesis by (intro exI [of _ "(bls, xs)"]) simp
qed

lemma train_epochs_ok:
  "train_epochs lib \<lparr>dataset = ts, batch_size = 32\<rparr> es s = (Inr u, s') \<Longrightarrow>
   \<exists>runs. list_all2 (epoch_run lib ts) es runs \<and>
     gradient_epochs lib (map fst runs) (world s) = Some (map snd runs, world s') \<and>
     calls s' = calls s @ concat (map (\<lambda>r. batches_calls (fst r) (snd r)) runs) \<and>
     (list_all (\<lambda>r. fst r \<noteq> []) runs \<longrightarrow> stdout s' = stdout s @ map2 epoch_line es runs)"
proof (induction es arbitrary: s)
  case Nil
  then show ?case by simp
next
  case (Cons e es)
  from Cons.prems obtain s1 where
    ep: "train_epoch lib \<lparr>dataset = ts, batch_size = 32\<rparr> e s = (Inr (), s1)" and
    rest: "train_epochs lib \<lparr>dataset = ts, batch_size = 32\<rparr> es s1 = (Inr u, s')"
    by (auto simp: and_then_def split: sum.splits prod.splits)
  from train_epoch_ok [OF ep] obtain r where
    r: "epoch_run lib ts e r"
      "gradient_steps lib (fst r) (world s) = Some (snd r, world s1)"
      "calls s1 = calls s @ batches_calls (fst r) (snd r)"
      "fst r \<noteq> [] \<longrightarrow> stdout s1 = stdout s @ [epoch_line e r]"
    by blast
  from Cons.IH [OF rest] obtain runs where
    rs: "list_all2 (epoch_run lib ts) es runs"
      "gradient_epochs lib (map fst runs) (world s1) = Some (map snd runs, world s')"
      "calls s' = calls s1 @ concat (map (\<lambda>r. batches_calls (fst r) (snd r)) runs)"
      "list_all (\<lambda>r. fst r \<noteq> []) runs \<longrightarrow> stdout s' = stdout s1 @ map2 epoch_line es runs"
    by blast
  have "list_all2 (epoch_run lib ts) (e # es) (r # runs) \<and>
     gradient_epochs lib (map fst (r # runs)) (world s) = Some (map snd (r # runs), world s') \<and>
     calls s' = calls s @ concat (map (\<lambda>r. batches_calls (fst r) (snd r)) (r # runs)) \<and>
     (list_all (\<lambda>r. fst r \<noteq> []) (r # runs) \<longrightarrow>
        stdout s' = stdout s @ map2 epoch_line (e # es) (r # runs))"
    using r rs by simp
  then show ?case by blast
qed

lemma chunks_nonempty: "0 < n \<Longrightarrow> xs \<noteq> [] \<Longrightarrow> chunks n xs \<noteq> []"
  by (subst chunks.simps) simp

lemma epoch_run_nonempty:
  assumes "epoch_run lib ts e r" and "sampler lib e ts \<noteq> []"
  shows "fst r \<noteq> []"
proof -
  let ?bs = "loader_batches \<lparr>dataset = ts, batch_size = 32\<rparr> (sampler lib e)"
  have "?bs \<noteq> []"
    using assms(2) by (simp add: loader_batches_def chunks_nonempty)
  moreover have "length (fst r) = length ?bs"
    using assms(1) by (auto simp: epoch_run_def dest: collated_length)
  ultimately show ?thesis by auto
qed

lemma training_ok:
  assumes "fst (training lib trainset s) = Inr u"
  shows "trainset \<noteq> [] \<and>
   (\<exists>runs. list_all2 (epoch_run lib trainset) [0..<80] runs \<and>
     gradient_epochs lib (map fst runs) (world s) =
       Some (map snd runs, world (snd (training lib trainset s))) \<and>
     calls (snd (training lib trainset s)) =
       calls s @ concat (map (\<lambda>r. batches_calls (fst r) (snd r)) runs) \<and>
     (list_all (\<lambda>r. fst r \<noteq> []) runs \<longrightarrow>
        stdout (snd (training lib trainset s)) = stdout s @ map2 epoch_line [0..<80] runs))"
proof -
  from assms have ne: "trainset \<noteq> []"
    by (auto simp: training_def DataLoader_def split: if_splits)
  with assms have "train_epochs lib \<lparr>dataset = trainset, batch_size = 32\<rparr> [0..<80]
      (s\<lparr>epoch_losses := []\<rparr>) = (Inr u, snd (training lib trainset s))"
    by (simp add: training_def DataLoader_def prod_eq_iff)
  from train_epochs_ok [OF this] ne show ?thesis by simp
qed

lemma train_step_lib0:
  "train_step lib0 0 [(7, 2), (5, 0)] s =
     (Inr (), s\<lparr>iter := Some 0, world := Suc (world s),
                 calls := calls s @ minibatch_calls (12, [2, 0]) (1 / 2),
                 epoch_loss := epoch_loss s + 1 / 2\<rparr>)"
proof -
  have c: "collate (batch_graphs lib0) (map pair [(7, 2), (5, 0)]) = Inr (12 :: nat, [2, 0 :: int])"
    by (subst collate_pairs) (simp_all add: lib0_def)
  show ?thesis
    unfolding train_step_def c
    by (simp add: lib0_def and_then_def lib_call_def minibatch_calls_def)
qed

lemma loader_batches_lib0:
  "loader_batches \<lparr>dataset = ts0, batch_size = 32\<rparr> (sampler lib0 e) = [[(7, 2), (5, 0)]]"
  by (simp add: loader_batches_def lib0_def ts0_def chunks.simps)

lemma train_epoch_lib0: "fst (train_epoch lib0 \<lparr>dataset = ts0, batch_size = 32\<rparr> e s) = Inr ()"
  by (simp add: train_epoch_def loader_batches_lib0 and_then_def train_step_lib0 Let_def)

lemma train_epochs_lib0: "fst (train_epochs lib0 \<lparr>dataset = ts0, batch_size = 32\<rparr> es s) = Inr ()"
proof (induction es arbitrary: s)
  case Nil
  then show ?case by simp
next
  case (Cons e es)
  obtain r s1 where e: "train_epoch lib0 \<lparr>dataset = ts0, batch_size = 32\<rparr> e s = (r, s1)"
    by (cases "train_epoch lib0 \<lparr>dataset = ts0, batch_size = 32\<rparr> e s")
  with train_epoch_lib0 [of e s] have "r = Inr ()" by simp
  with e Cons.IH [of s1] show ?case by (simp add: and_then_def)
qed

lemma training_lib0: "fst (training lib0 ts0 s0) = Inr ()"
proof -
  have "DataLoader ts0 32 = Inr \<lparr>dataset = ts0, batch_size = 32\<rparr>"
    by (simp add: DataLoader_def ts0_def)
  then show ?thesis by (simp add: training_def train_epochs_lib0)
qed

lemma collated_lib0:
  "collated lib0 (loader_batches \<lparr>dataset = ts0, batch_size = 32\<rparr> (sampler lib0 e)) =
     [Inr (12, [2, 0])]"
proof -
  have c: "collate (batch_graphs lib0) (map pair [(7, 2), (5, 0)]) = Inr (12 :: nat, [2, 0 :: int])"
    by (subst collate_pairs) (simp_all add: lib0_def)
  then show ?thesis by (simp add: loader_batches_lib0 collated_def)
qed

lemma runs_lib0_batches:
  "list_all2 (epoch_run lib0 ts0) es runs \<Longrightarrow> map fst runs = replicate (length es) [(12, [2, 0])]"
proof (induction es runs rule: list_all2_induct)
  case Nil
  then show ?case by simp
next
  case (Cons e es r runs)
  from Cons.hyps(1) have
    "collated lib0 (loader_batches \<lparr>dataset = ts0, batch_size = 32\<rparr> (sampler lib0 e)) =
       map Inr (fst r)"
    by (simp add: epoch_run_def)
  then have "fst r = [(12, [2, 0])]" unfolding collated_lib0 by (cases "fst r") auto
  with Cons.IH show ?case by simp
qed

lemma gradient_step_lib0: "gradient_step lib0 (12, [2, 0]) w = Some (1 / 2, Suc w)"
  by (simp add: gradient_step_def lib0_def)

lemma gradient_epochs_lib0:
  "gradient_epochs lib0 (replicate n [(12, [2, 0])]) w = Some (replicate n [1 / 2], w + n)"
  by (induction n arbitrary: w) (simp_all add: gradient_step_lib0)

lemma map2_replicate: "length xs = n \<Longrightarrow> map2 f xs (replicate n r) = map (\<lambda>x. f x r) xs"
  by (induction xs arbitrary: n) auto

lemma runs_lib0:
  assumes "list_all2 (epoch_run lib0 ts0) es runs"
    and "gradient_epochs lib0 (map fst runs) w = Some (map snd runs, w')"
  shows "runs = replicate (length es) ([(12, [2, 0])], [1 / 2]) \<and> w' = w + length es"
proof -
  note f = runs_lib0_batches [OF assms(1)]
  from assms(2) have s: "map snd runs = replicate (length es) [1 / 2]" and w: "w' = w + length es"
    unfolding f gradient_epochs_lib0 by simp_all
  have "runs = zip (map fst runs) (map snd runs)" by (simp add: zip_map_fst_snd)
  also have "\<dots> = replicate (length es) ([(12, [2, 0])], [1 / 2])"
    unfolding f s by (simp add: zip_replicate)
  finally show ?thesis using w by simp
qed

text \<open>
  C4: a run of the training cell that ends normally is gradient descent over the epochs
  0 to 79 and, in each epoch, over the mini-batches the data loader forms: for every
  mini-batch in turn the forward pass of the model on the batched graph, the loss
  against the labels, the reset of the gradients, the backward pass and the optimizer
  step are made, each in the world the call before it has left, and the world at the end
  of the run is the one the last optimizer step has left.  The record of the calls shows
  them in that order, once each, followed by the reading of the loss value.
\<close>

theorem training_calls_in_order:
  assumes "fst (training lib trainset s) = Inr u"
  shows "\<exists>runs. list_all2 (epoch_run lib trainset) [0..<80] runs \<and>
     gradient_epochs lib (map fst runs) (world s) =
       Some (map snd runs, world (snd (training lib trainset s))) \<and>
     calls (snd (training lib trainset s)) =
       calls s @ concat (map (\<lambda>r. batches_calls (fst r) (snd r)) runs)"
  using training_ok [OF assms] by blast

theorem training_calls_in_order_witness:
  "fst (training lib0 ts0 s0) = Inr () \<and>
   world (snd (training lib0 ts0 s0)) = 80 \<and>
   calls (snd (training lib0 ts0 s0)) =
     concat (replicate 80 [Forward 12, Loss [2, 0], ZeroGrad, Backward, Step, Item (1 / 2)])"
proof -
  from training_calls_in_order [OF training_lib0] obtain runs where
    r: "list_all2 (epoch_run lib0 ts0) [0..<80] runs"
      "gradient_epochs lib0 (map fst runs) (world s0) =
         Some (map snd runs, world (snd (training lib0 ts0 s0)))"
      "calls (snd (training lib0 ts0 s0)) =
         calls s0 @ concat (map (\<lambda>r. batches_calls (fst r) (snd r)) runs)"
    by blast
  from runs_lib0 [OF r(1,2)] have
    runs: "runs = replicate 80 ([(12, [2, 0])], [1 / 2])" and
    w: "world (snd (training lib0 ts0 s0)) = world s0 + 80"
    by simp_all
  have c: "calls (snd (training lib0 ts0 s0)) =
      concat (replicate 80 [Forward 12, Loss [2, 0], ZeroGrad, Backward, Step, Item (1 / 2)])"
    unfolding r(3) runs by (simp add: s0_def batches_calls_def minibatch_calls_def)
  from w c training_lib0 show ?thesis by (simp add: s0_def)
qed

text \<open>
  C6: when the data loader visits every sample once in each pass, a run of the training
  cell that ends normally prints one line for each of the epochs 0 to 79, in this order.
  Every epoch has at least one mini-batch, and its line shows the index of the epoch and
  the sum, divided by the number of its mini-batches, of the loss values of its
  mini-batches: the numbers read from the losses that the loss function has returned for
  the predictions of the model in the gradient descent of that run.
\<close>

theorem training_prints_mean_loss:
  assumes ok: "fst (training lib trainset s) = Inr u"
    and perm: "\<forall>e. mset (sampler lib e trainset) = mset trainset"
  shows "\<exists>runs. list_all2 (epoch_run lib trainset) [0..<80] runs \<and>
     list_all (\<lambda>r. fst r \<noteq> []) runs \<and>
     gradient_epochs lib (map fst runs) (world s) =
       Some (map snd runs, world (snd (training lib trainset s))) \<and>
     stdout (snd (training lib trainset s)) = stdout s @ map2 epoch_line [0..<80] runs"
proof -
  from training_ok [OF ok] obtain runs where
    ne: "trainset \<noteq> []" and
    r: "list_all2 (epoch_run lib trainset) [0..<80] runs"
      "gradient_epochs lib (map fst runs) (world s) =
         Some (map snd runs, world (snd (training lib trainset s)))"
      "list_all (\<lambda>r. fst r \<noteq> []) runs \<longrightarrow>
         stdout (snd (training lib trainset s)) = stdout s @ map2 epoch_line [0..<80] runs"
    by blast
  have s: "sampler lib e trainset \<noteq> []" for e
  proof
    assume "sampler lib e trainset = []"
    with perm have "mset trainset = {#}" by (metis mset.simps(1))
    with ne show False by simp
  qed
  have "fst x \<noteq> []" if "x \<in> set runs" for x
  proof -
    from that obtain k where k: "k < length runs" "runs ! k = x" by (auto simp: in_set_conv_nth)
    with r(1) have "epoch_run lib trainset ([0..<80] ! k) x"
      by (auto simp: list_all2_conv_all_nth)
    then show ?thesis by (rule epoch_run_nonempty) (rule s)
  qed
  then have "list_all (\<lambda>r. fst r \<noteq> []) runs" by (simp add: list_all_iff)
  with r show ?thesis by blast
qed

theorem training_prints_mean_loss_witness:
  "fst (training lib0 ts0 s0) = Inr () \<and>
   (\<forall>e. mset (sampler lib0 e ts0) = mset ts0) \<and>
   stdout (snd (training lib0 ts0 s0)) = map (\<lambda>e. EpochLine e (1 / 2)) [0..<80]"
proof -
  have perm: "\<forall>e. mset (sampler lib0 e ts0) = mset ts0" by (simp add: lib0_def)
  from training_prints_mean_loss [OF training_lib0 perm] obtain runs where
    r: "list_all2 (epoch_run lib0 ts0) [0..<80] runs"
      "gradient_epochs lib0 (map fst runs) (world s0) =
         Some (map snd runs, world (snd (training lib0 ts0 s0)))"
      "stdout (snd (training lib0 ts0 s0)) = stdout s0 @ map2 epoch_line [0..<80] runs"
    by blast
  from runs_lib0 [OF r(1,2)] have runs: "runs = replicate 80 ([(12, [2, 0])], [1 / 2])"
    by simp
  have "stdout (snd (training lib0 ts0 s0)) = map (\<lambda>e. EpochLine e (1 / 2)) [0..<80]"
    unfolding r(3) runs by (simp add: s0_def map2_replicate epoch_line_def)
  with perm training_lib0 show ?thesis by simp
qed

section \<open>The evaluation cell\<close>

lemma argmax_max:
  "r \<noteq> [] \<Longrightarrow> argmax r < length r \<and> (\<forall>c<length r. r ! c \<le> r ! argmax r)"
proof (induction r)
  case Nil
  then show ?case by simp
next
  case (Cons x xs)
  show ?case
  proof (cases "xs = []")
    case True
    then show ?thesis by simp
  next
    case False
    with Cons.IH have ih: "argmax xs < length xs" "\<forall>c<length xs. xs ! c \<le> xs ! argmax xs"
      by simp_all
    show ?thesis
    proof (cases "x < xs ! argmax xs")
      case True
      have "(x # xs) ! c \<le> xs ! argmax xs" if "c < length (x # xs)" for c
        using that True ih(2) by (cases c) auto
      with True False ih(1) show ?thesis by (simp add: Let_def)
    next
      case nl: False
      have "(x # xs) ! c \<le> x" if "c < length (x # xs)" for c
      proof (cases c)
        case 0
        then show ?thesis by simp
      next
        case (Suc k)
        with that ih(2) have "xs ! k \<le> xs ! argmax xs" by simp
        with nl Suc show ?thesis by simp
      qed
      with nl False show ?thesis by (simp add: Let_def)
    qed
  qed
qed

lemma zip_nth_upt:
  "length a = length b \<Longrightarrow> zip a b = map (\<lambda>i. (a ! i, b ! i)) [0..<length a]"
  by (intro nth_equalityI) simp_all

lemma eq_count_same_length:
  assumes "length a = length b"
  shows "eq_count a b = Inr (length (filter (\<lambda>i. a ! i = b ! i) [0..<length a]))"
proof -
  have "filter (\<lambda>p. fst p = snd p) (zip a b) =
      map (\<lambda>i. (a ! i, b ! i)) (filter (\<lambda>i. a ! i = b ! i) [0..<length a])"
    unfolding zip_nth_upt [OF assms] by (simp add: filter_map comp_def)
  then show ?thesis using assms by (simp add: eq_count_def)
qed

lemma real_of_int_eq_real: "real_of_int y = real n \<longleftrightarrow> y = int n"
  by (metis of_int_of_nat_eq of_int_eq_iff)

lemma eq_count_accuracy:
  assumes "length preds = length testset"
  shows "eq_count (map real_of_int (map snd testset)) (map real preds) =
           Inr (length (filter (\<lambda>i. snd (testset ! i) = int (preds ! i)) [0..<length testset]))"
proof -
  have "filter (\<lambda>i. map real_of_int (map snd testset) ! i = map real preds ! i) [0..<length testset]
      = filter (\<lambda>i. snd (testset ! i) = int (preds ! i)) [0..<length testset]"
    using assms by (intro filter_cong) (auto simp: real_of_int_eq_real)
  then show ?thesis
    using assms eq_count_same_length [of "map real_of_int (map snd testset)" "map real preds"]
    by simp
qed

lemma accuracy_cong:
  "(\<And>i. i < length testset \<Longrightarrow> f i = g i) \<Longrightarrow> accuracy f testset = accuracy g testset"
proof -
  assume a: "\<And>i. i < length testset \<Longrightarrow> f i = g i"
  have "filter (\<lambda>i. snd (testset ! i) = int (f i)) [0..<length testset] =
        filter (\<lambda>i. snd (testset ! i) = int (g i)) [0..<length testset]"
    using a by (intro filter_cong) auto
  then show ?thesis by (simp add: accuracy_def)
qed

lemma evaluation_ok:
  assumes ok: "fst (evaluation lib testset s) = Inr u"
  shows "\<exists>test_bg logits. batch_graphs lib (map fst testset) = Inr test_bg \<and>
           fst (model lib test_bg (world s)) = Inr logits \<and>
           list_all (\<lambda>r. r \<noteq> []) logits \<and>
           (length logits = length testset \<longrightarrow>
              stdout (snd (evaluation lib testset s)) = stdout s @
                [SampledLine (accuracy (\<lambda>i. draw lib i (softmax (logits ! i))) testset),
                 ArgmaxLine (accuracy (\<lambda>i. argmax (softmax (logits ! i))) testset)])"
proof (cases "testset = []")
  case True
  with ok show ?thesis by (simp add: evaluation_def zip_star_Nil)
next
  case ne: False
  note z = zip_star_pairs [OF ne]
  show ?thesis
  proof (cases "batch_graphs lib (map fst testset)")
    case (Inl e)
    with ok show ?thesis
      by (simp add: evaluation_def z batch_def graphs_of_Graphs)
  next
    case (Inr test_bg)
    obtain r w where m: "model lib test_bg (world s) = (r, w)"
      by (cases "model lib test_bg (world s)")
    show ?thesis
    proof (cases r)
      case (Inl e)
      with ok Inr m show ?thesis
        by (simp add: evaluation_def z batch_def graphs_of_Graphs torch_tensor_Labels
            and_then_def lib_call_def)
    next
      case lg: (Inr logits)
      let ?s1 = "s\<lparr>world := w, calls := calls s @ [Forward test_bg]\<rparr>"
      let ?probs = "torch_softmax_1 logits"
      let ?ys = "map real_of_int (map snd testset)"
      let ?sampled = "map2 (draw lib) [0..<length ?probs] ?probs"
      let ?best = "map argmax ?probs"
      have ev: "evaluation lib testset s =
         (if list_ex (\<lambda>r. r = []) ?probs then (Inl RuntimeError, ?s1)
          else case eq_count ?ys (map real ?sampled) of
                 Inl e \<Rightarrow> (Inl e, ?s1)
               | Inr k1 \<Rightarrow>
                  (case eq_count ?ys (map real ?best) of
                     Inl e \<Rightarrow> (Inl e, ?s1\<lparr>stdout := stdout s @
                                 [SampledLine (real k1 / real (length testset) * 100)]\<rparr>)
                   | Inr k2 \<Rightarrow>
                      (Inr (), ?s1\<lparr>stdout := stdout s @
                                 [SampledLine (real k1 / real (length testset) * 100),
                                  ArgmaxLine (real k2 / real (length testset) * 100)]\<rparr>)))"
        using Inr m lg
        by (simp add: evaluation_def z batch_def graphs_of_Graphs torch_tensor_Labels
            and_then_def lib_call_def Let_def split: sum.splits)
      have nonempty: "\<not> list_ex (\<lambda>r. r = []) ?probs"
        using ok unfolding ev by (auto split: if_splits)
      then have rows: "list_all (\<lambda>r. r \<noteq> []) logits"
        by (auto simp: list_all_iff list_ex_iff torch_softmax_1_def softmax_def)
      have out: "stdout (snd (evaluation lib testset s)) = stdout s @
                [SampledLine (accuracy (\<lambda>i. draw lib i (softmax (logits ! i))) testset),
                 ArgmaxLine (accuracy (\<lambda>i. argmax (softmax (logits ! i))) testset)]"
        if len: "length logits = length testset"
      proof -
        have l1: "length ?sampled = length testset" and l2: "length ?best = length testset"
          using len by (simp_all add: torch_softmax_1_def)
        have a1: "accuracy (\<lambda>i. ?sampled ! i) testset =
            accuracy (\<lambda>i. draw lib i (softmax (logits ! i))) testset"
          using len by (intro accuracy_cong) (simp add: torch_softmax_1_def)
        have a2: "accuracy (\<lambda>i. ?best ! i) testset =
            accuracy (\<lambda>i. argmax (softmax (logits ! i))) testset"
          using len by (intro accuracy_cong) (simp add: torch_softmax_1_def)
        show ?thesis
          unfolding ev eq_count_accuracy [OF l1] eq_count_accuracy [OF l2]
          using nonempty a1 a2 by (simp add: accuracy_def)
      qed
      from Inr m lg rows out show ?thesis by simp
    qed
  qed
qed


lemma length_softmax: "length (softmax r) = length r"
  by (simp add: softmax_def)

lemma softmax_argmax:
  "\<forall>i<length logits. \<forall>c<length (logits ! i).
      softmax (logits ! i) ! c \<le> softmax (logits ! i) ! argmax (softmax (logits ! i))"
proof (intro allI impI)
  fix i c
  assume "i < length logits" and c: "c < length (logits ! i)"
  then have "softmax (logits ! i) \<noteq> []" by (auto simp: softmax_def)
  from argmax_max [OF this] c
  show "softmax (logits ! i) ! c \<le> softmax (logits ! i) ! argmax (softmax (logits ! i))"
    by (simp add: length_softmax)
qed

lemma softmax_zeros: "softmax [0, 0, 0] = [1 / 3, 1 / 3, 1 / 3]"
  by (simp add: softmax_def)

lemma evaluation_lib0: "fst (evaluation lib0 ts0 s0) = Inr ()"
proof -
  have ne: "ts0 \<noteq> []" by (simp add: ts0_def)
  show ?thesis
    unfolding evaluation_def zip_star_pairs [OF ne]
    by (simp add: batch_def graphs_of_Graphs torch_tensor_Labels lib0_def and_then_def lib_call_def
        torch_softmax_1_def softmax_zeros ts0_def eq_count_def)
qed

text \<open>
  C7: an evaluation that ends normally has called the model once on the batch of all
  test graphs.  The class taken as argmax has maximal probability under the softmax of
  the logits of its graph.  When the model returns one row of logits for each test
  graph, exactly two lines are printed: the accuracy of the classes drawn from the
  softmax distributions, then the accuracy of the argmax classes, each the percentage of
  test graphs whose predicted class is the true label.
\<close>

theorem evaluation_two_accuracies:
  assumes "fst (evaluation lib testset s) = Inr u"
  shows "\<exists>test_bg logits. batch_graphs lib (map fst testset) = Inr test_bg \<and>
           fst (model lib test_bg (world s)) = Inr logits \<and>
           (\<forall>i<length logits. \<forall>c<length (logits ! i).
              softmax (logits ! i) ! c \<le> softmax (logits ! i) ! argmax (softmax (logits ! i))) \<and>
           (length logits = length testset \<longrightarrow>
              stdout (snd (evaluation lib testset s)) = stdout s @
                [SampledLine (accuracy (\<lambda>i. draw lib i (softmax (logits ! i))) testset),
                 ArgmaxLine (accuracy (\<lambda>i. argmax (softmax (logits ! i))) testset)])"
  using evaluation_ok [OF assms] softmax_argmax by blast

theorem evaluation_two_accuracies_witness:
  "fst (evaluation lib0 ts0 s0) = Inr () \<and>
   stdout (snd (evaluation lib0 ts0 s0)) = [SampledLine 50, ArgmaxLine 50]"
proof -
  from evaluation_two_accuracies [OF evaluation_lib0] obtain test_bg logits where
    m: "fst (model lib0 test_bg (world s0)) = Inr logits" and
    out: "length logits = length ts0 \<longrightarrow>
       stdout (snd (evaluation lib0 ts0 s0)) = stdout s0 @
         [SampledLine (accuracy (\<lambda>i. draw lib0 i (softmax (logits ! i))) ts0),
          ArgmaxLine (accuracy (\<lambda>i. argmax (softmax (logits ! i))) ts0)]"
    by blast
  from m have l: "logits = [[0, 0, 0], [0, 0, 0]]" by (simp add: lib0_def)
  have a1: "accuracy (\<lambda>i. draw lib0 i (softmax (logits ! i))) ts0 = 50"
    by (simp add: accuracy_def lib0_def ts0_def upt_conv_Cons)
  have a2: "accuracy (\<lambda>i. argmax (softmax (logits ! i))) ts0 = 50"
    by (simp add: accuracy_def l ts0_def upt_conv_Cons nth_Cons' softmax_zeros)
  from out l a1 a2 evaluation_lib0 show ?thesis by (simp add: ts0_def s0_def)
qed

section \<open>Errors of library calls\<close>

lemma collate_raises_batch:
  "zip_star samples = [graphs, labels] \<and> batch dgl_batch graphs = Inl e \<longrightarrow>
      collate dgl_batch samples = Inl e"
  by (simp add: collate_def)

lemma collate_raises_tensor:
  "zip_star samples = [graphs, labels] \<and> batch dgl_batch graphs = Inr batched_graph \<and>
    torch_tensor labels = Inl e \<longrightarrow>
      collate dgl_batch samples = Inl e"
  by (simp add: collate_def)

lemma reduce_raises:
  "mailbox received ''m'' = None \<longrightarrow> reduce received = Inl KeyError"
  by (simp add: reduce_def)

lemma NodeApplyModule_forward_raises_data:
  "data node ''h'' = None \<longrightarrow> NodeApplyModule_forward m node = Inl KeyError"
  by (simp add: NodeApplyModule_forward_def)

lemma NodeApplyModule_forward_raises_linear:
  "data node ''h'' = Some x \<and> Linear_forward (linear m) x = Inl e \<longrightarrow>
      NodeApplyModule_forward m node = Inl e"
  by (simp add: NodeApplyModule_forward_def)

lemma GCN_forward_raises_set:
  "set_ndata ''h'' feature g = (Inl e, g1) \<longrightarrow> GCN_forward conv g feature = (Inl e, g1)"
  by (simp add: GCN_forward_def)

lemma GCN_forward_raises_update_all:
  "set_ndata ''h'' feature g = (Inr (), g1) \<and> update_all msg reduce g1 = (Inl e, g2) \<longrightarrow>
      GCN_forward conv g feature = (Inl e, g2)"
  by (simp add: GCN_forward_def)

lemma GCN_forward_raises_apply_nodes:
  "set_ndata ''h'' feature g = (Inr (), g1) \<and> update_all msg reduce g1 = (Inr (), g2) \<and>
    apply_nodes (NodeApplyModule_forward (apply_mod conv)) g2 = (Inl e, g3) \<longrightarrow>
      GCN_forward conv g feature = (Inl e, g3)"
  by (simp add: GCN_forward_def)

lemma GCN_forward_raises_pop:
  "set_ndata ''h'' feature g = (Inr (), g1) \<and> update_all msg reduce g1 = (Inr (), g2) \<and>
    apply_nodes (NodeApplyModule_forward (apply_mod conv)) g2 = (Inr (), g3) \<and>
    pop_ndata ''h'' g3 = (Inl e, g4) \<longrightarrow>
      GCN_forward conv g feature = (Inl e, g4)"
  by (simp add: GCN_forward_def)

lemma apply_layers_raises_first:
  "GCN_forward conv g h = (Inl e, g1) \<longrightarrow> apply_layers (conv # convs) g h = (Inl e, g1)"
  by simp

lemma apply_layers_raises_later:
  "GCN_forward conv g h = (Inr h1, g1) \<and> apply_layers convs g1 h1 = (Inl e, g2) \<longrightarrow>
      apply_layers (conv # convs) g h = (Inl e, g2)"
  by simp

lemma Classifier_forward_raises_layers:
  "apply_layers (layers clf) g (map (\<lambda>d. [real d]) (in_degrees g)) = (Inl e, g1) \<longrightarrow>
      Classifier_forward clf g = (Inl e, g1)"
  by (simp add: Classifier_forward_def)

lemma Classifier_forward_raises_set:
  "apply_layers (layers clf) g (map (\<lambda>d. [real d]) (in_degrees g)) = (Inr h, g1) \<and>
    set_ndata ''h'' h g1 = (Inl e, g2) \<longrightarrow>
      Classifier_forward clf g = (Inl e, g2)"
  by (simp add: Classifier_forward_def)

lemma Classifier_forward_raises_mean_nodes:
  "apply_layers (layers clf) g (map (\<lambda>d. [real d]) (in_degrees g)) = (Inr h, g1) \<and>
    set_ndata ''h'' h g1 = (Inr (), g2) \<and> mean_nodes g2 ''h'' = Inl e \<longrightarrow>
      Classifier_forward clf g = (Inl e, g2)"
  by (simp add: Classifier_forward_def)

lemma Classifier_forward_raises_classify:
  "apply_layers (layers clf) g (map (\<lambda>d. [real d]) (in_degrees g)) = (Inr h, g1) \<and>
    set_ndata ''h'' h g1 = (Inr (), g2) \<and> mean_nodes g2 ''h'' = Inr hg \<and>
    Linear_forward (classify clf) hg = Inl e \<longrightarrow>
      Classifier_forward clf g = (Inl e, g2)"
  by (simp add: Classifier_forward_def)

lemma train_step_raises_collate:
  "collate (batch_graphs lib) (map pair minibatch) = Inl e \<longrightarrow>
      train_step lib i minibatch s = (Inl e, s)"
  by (simp add: train_step_def and_then_def lib_call_def)

lemma train_step_raises_model:
  "collate (batch_graphs lib) (map pair minibatch) = Inr (bg, label) \<and>
    model lib bg (world s) = (Inl e, w1) \<longrightarrow>
      train_step lib i minibatch s =
        (Inl e, s\<lparr>iter := Some i, world := w1,
                   calls := calls s @ [Forward bg]\<rparr>)"
  by (simp add: train_step_def and_then_def lib_call_def)

lemma train_step_raises_loss_func:
  "collate (batch_graphs lib) (map pair minibatch) = Inr (bg, label) \<and>
    model lib bg (world s) = (Inr prediction, w1) \<and>
    loss_func lib prediction label w1 = (Inl e, w2) \<longrightarrow>
      train_step lib i minibatch s =
        (Inl e, s\<lparr>iter := Some i, world := w2,
                   calls := calls s @ [Forward bg, Loss label]\<rparr>)"
  by (simp add: train_step_def and_then_def lib_call_def)

lemma train_step_raises_zero_grad:
  "collate (batch_graphs lib) (map pair minibatch) = Inr (bg, label) \<and>
    model lib bg (world s) = (Inr prediction, w1) \<and>
    loss_func lib prediction label w1 = (Inr loss, w2) \<and>
    zero_grad lib w2 = (Inl e, w3) \<longrightarrow>
      train_step lib i minibatch s =
        (Inl e, s\<lparr>iter := Some i, world := w3,
                   calls := calls s @ [Forward bg, Loss label, ZeroGrad]\<rparr>)"
  by (simp add: train_step_def and_then_def lib_call_def)

lemma train_step_raises_backward:
  "collate (batch_graphs lib) (map pair minibatch) = Inr (bg, label) \<and>
    model lib bg (world s) = (Inr prediction, w1) \<and>
    loss_func lib prediction label w1 = (Inr loss, w2) \<and>
    zero_grad lib w2 = (Inr (), w3) \<and> backward lib loss w3 = (Inl e, w4) \<longrightarrow>
      train_step lib i minibatch s =
        (Inl e, s\<lparr>iter := Some i, world := w4,
                   calls := calls s @ [Forward bg, Loss label, ZeroGrad, Backward]\<rparr>)"
  by (simp add: train_step_def and_then_def lib_call_def)

lemma train_step_raises_step:
  "collate (batch_graphs lib) (map pair minibatch) = Inr (bg, label) \<and>
    model lib bg (world s) = (Inr prediction, w1) \<and>
    loss_func lib prediction label w1 = (Inr loss, w2) \<and>
    zero_grad lib w2 = (Inr (), w3) \<and> backward lib loss w3 = (Inr (), w4) \<and>
    step lib w4 = (Inl e, w5) \<longrightarrow>
      train_step lib i minibatch s =
        (Inl e, s\<lparr>iter := Some i, world := w5,
                   calls := calls s @ [Forward bg, Loss label, ZeroGrad, Backward, Step]\<rparr>)"
  by (simp add: train_step_def and_then_def lib_call_def)

lemma train_batches_raises:
  "train_batches lib i before s = (Inr (), s1) \<and>
    train_step lib (i + length before) minibatch s1 = (Inl e, s2) \<longrightarrow>
      train_batches lib i (before @ minibatch # rest) s = (Inl e, s2)"
  proof (induction "before" arbitrary: i s)
  case Nil
  then show ?case by (simp add: and_then_def)
next
  case (Cons b bs)
  show ?case
  proof (cases "train_step lib i b s")
    case (Pair r s')
    then show ?thesis
      using Cons.IH [of "Suc i" s'] by (cases r) (simp_all add: and_then_def)
  qed
qed

lemma train_epoch_raises:
  "train_batches lib 0 (loader_batches data_loader (sampler lib epoch)) (s\<lparr>epoch_loss := 0\<rparr>) =
      (Inl e, s1) \<longrightarrow>
      train_epoch lib data_loader epoch s = (Inl e, s1)"
  by (simp add: train_epoch_def and_then_def)

lemma train_epochs_raises:
  "train_epochs lib data_loader epochs s = (Inr (), s1) \<and>
    train_epoch lib data_loader epoch s1 = (Inl e, s2) \<longrightarrow>
      train_epochs lib data_loader (epochs @ epoch # later) s = (Inl e, s2)"
  proof (induction epochs arbitrary: s)
  case Nil
  then show ?case by (simp add: and_then_def)
next
  case (Cons b bs)
  show ?case
  proof (cases "train_epoch lib data_loader b s")
    case (Pair r s')
    then show ?thesis
      using Cons.IH [of s'] by (cases r) (simp_all add: and_then_def)
  qed
qed

lemma training_raises_DataLoader:
  "DataLoader trainset 32 = Inl e \<longrightarrow> training lib trainset s = (Inl e, s)"
  by (simp add: training_def)

lemma training_raises_epochs:
  "DataLoader trainset 32 = Inr data_loader \<and>
    train_epochs lib data_loader [0..<80] (s\<lparr>epoch_losses := []\<rparr>) = (Inl e, s1) \<longrightarrow>
      training lib trainset s = (Inl e, s1)"
  by (simp add: training_def)

lemma evaluation_raises_batch:
  "zip_star (map pair testset) = [test_X, test_Y] \<and>
    batch (batch_graphs elib) test_X = Inl e \<longrightarrow>
      evaluation elib testset es = (Inl e, es)"
  by (simp add: evaluation_def and_then_def lib_call_def Let_def)

lemma evaluation_raises_tensor:
  "zip_star (map pair testset) = [test_X, test_Y] \<and>
    batch (batch_graphs elib) test_X = Inr test_bg \<and> torch_tensor test_Y = Inl e \<longrightarrow>
      evaluation elib testset es = (Inl e, es)"
  by (simp add: evaluation_def and_then_def lib_call_def Let_def)

lemma evaluation_raises_model:
  "zip_star (map pair testset) = [test_X, test_Y] \<and>
    batch (batch_graphs elib) test_X = Inr test_bg \<and> torch_tensor test_Y = Inr targets \<and>
    model elib test_bg (world es) = (Inl e, ew) \<longrightarrow>
      evaluation elib testset es = (Inl e, es\<lparr>world := ew, calls := calls es @ [Forward test_bg]\<rparr>)"
  by (simp add: evaluation_def and_then_def lib_call_def Let_def)

lemma evaluation_raises_multinomial:
  "zip_star (map pair testset) = [test_X, test_Y] \<and>
    batch (batch_graphs elib) test_X = Inr test_bg \<and> torch_tensor test_Y = Inr targets \<and>
    model elib test_bg (world es) = (Inr logits, ew) \<and>
    list_ex (\<lambda>r. r = []) (torch_softmax_1 logits) \<longrightarrow>
      evaluation elib testset es = (Inl RuntimeError, es\<lparr>world := ew, calls := calls es @ [Forward test_bg]\<rparr>)"
  by (simp add: evaluation_def and_then_def lib_call_def Let_def)

lemma evaluation_raises_sampled:
  "zip_star (map pair testset) = [test_X, test_Y] \<and>
    batch (batch_graphs elib) test_X = Inr test_bg \<and> torch_tensor test_Y = Inr targets \<and>
    model elib test_bg (world es) = (Inr logits, ew) \<and>
    \<not> list_ex (\<lambda>r. r = []) (torch_softmax_1 logits) \<and>
    eq_count (map real_of_int targets)
      (map real (map2 (draw elib) [0..<length (torch_softmax_1 logits)]
         (torch_softmax_1 logits))) = Inl e \<longrightarrow>
      evaluation elib testset es = (Inl e, es\<lparr>world := ew, calls := calls es @ [Forward test_bg]\<rparr>)"
  by (simp add: evaluation_def and_then_def lib_call_def Let_def)

lemma evaluation_raises_argmax:
  "zip_star (map pair testset) = [test_X, test_Y] \<and>
    batch (batch_graphs elib) test_X = Inr test_bg \<and> torch_tensor test_Y = Inr targets \<and>
    model elib test_bg (world es) = (Inr logits, ew) \<and>
    \<not> list_ex (\<lambda>r. r = []) (torch_softmax_1 logits) \<and>
    eq_count (map real_of_int targets)
      (map real (map2 (draw elib) [0..<length (torch_softmax_1 logits)]
         (torch_softmax_1 logits))) = Inr k \<and>
    eq_count (map real_of_int targets) (map real (map argmax (torch_softmax_1 logits))) =
      Inl e \<longrightarrow>
      evaluation elib testset es =
        (Inl e, es\<lparr>world := ew, calls := calls es @ [Forward test_bg],
                   stdout := stdout es @
                     [SampledLine (real k / real (length (map real_of_int targets)) * 100)]\<rparr>)"
  by (simp add: evaluation_def and_then_def lib_call_def Let_def)

text \<open>
  Library calls that have no way to fail where they stand in the code, once the calls
  before them have returned.
\<close>

lemma update_all_after_set:
  assumes "set_ndata ''h'' feature g = (Inr (), g1)"
  shows "fst (update_all msg reduce g1) = Inr ()"
proof -
  from assms have "ndata g1 ''h'' = Some feature" "length feature = num_nodes g1"
    by (auto simp: set_ndata_def split: if_splits)
  from update_all_msg_reduce [OF this] show ?thesis by simp
qed

lemma pop_after_apply_nodes:
  assumes "apply_nodes (NodeApplyModule_forward m) g2 = (Inr (), g3)"
  shows "\<exists>t. fst (pop_ndata ''h'' g3) = Inr t"
  using assms
  by (auto simp: apply_nodes_def NodeApplyModule_forward_def pop_ndata_def Let_def
      split: option.splits sum.splits if_splits)

lemma GCN_forward_rows:
  assumes "GCN_forward conv g h = (Inr h', g1)"
  shows "length h' = num_nodes g1"
  using assms by (auto simp: GCN_forward_eq Let_def split: if_splits)

lemma apply_layers_rows:
  "apply_layers convs g h = (Inr h', g1) \<Longrightarrow> length h = num_nodes g \<Longrightarrow> length h' = num_nodes g1"
proof (induction convs arbitrary: g h)
  case Nil
  then show ?case by simp
next
  case (Cons conv convs)
  from Cons.prems(1) obtain h1 g' where f: "GCN_forward conv g h = (Inr h1, g')"
    and r: "apply_layers convs g' h1 = (Inr h', g1)"
    by (auto split: sum.splits prod.splits)
  from Cons.IH [OF r GCN_forward_rows [OF f]] show ?case .
qed

lemma set_after_layers:
  assumes "apply_layers (layers clf) g (map (\<lambda>d. [real d]) (in_degrees g)) = (Inr h, g1)"
  shows "fst (set_ndata ''h'' h g1) = Inr ()"
  using apply_layers_rows [OF assms] by (simp add: set_ndata_def in_degrees_def)

lemma mean_nodes_after_set:
  assumes "set_ndata ''h'' h g1 = (Inr (), g2)"
  shows "\<exists>hg. mean_nodes g2 ''h'' = Inr hg"
  using assms by (auto simp: set_ndata_def mean_nodes_def split: if_splits)

lemma torch_tensor_after_zip:
  assumes "zip_star (map pair testset) = [test_X, test_Y]"
  shows "\<exists>t. torch_tensor test_Y = Inr t"
proof (cases "testset = []")
  case True
  with assms show ?thesis by (simp add: zip_star_Nil)
next
  case False
  from zip_star_pairs [OF this] assms show ?thesis by (auto simp: torch_tensor_Labels)
qed

lemma eq_count_again:
  assumes "eq_count a b = Inr k" and "length c = length b"
  shows "\<exists>k'. eq_count a c = Inr k'"
  using assms by (auto simp: eq_count_def split: if_splits)

text \<open>
  C8: neither \<open>collate\<close>, nor the functions of the graph convolution layer, nor the
  classifier, nor the training and evaluation cells handle an error.  Whenever a library
  call in one of them raises an error, the function or cell ends with this error, in the
  state the failing call has left: nothing is restored and no call is made again.  The
  statement goes through every library call of the notebook's code, in the order of the
  code, each under the condition that the calls before it have returned:
  \<^item> \<open>collate\<close>: \<open>dgl.batch\<close> and \<open>torch.tensor\<close>;
  \<^item> \<open>reduce\<close> and \<open>NodeApplyModule.forward\<close>: the lookups of the mailbox and of the
    node data, and the linear layer;
  \<^item> \<open>GCN.forward\<close>: the assignment to the node data, \<open>update_all\<close>, \<open>apply_nodes\<close> and
    \<open>pop\<close>;
  \<^item> \<open>Classifier.forward\<close>: the layers, the first and the later ones, the assignment to
    the node data, \<open>dgl.mean_nodes\<close> and the linear layer;
  \<^item> the training cell: the constructor of the data loader, \<open>collate\<close>, the model, the
    loss function, \<open>zero_grad\<close>, \<open>backward\<close> and \<open>step\<close>; the first mini-batch and
    the first epoch that fail end the loops;
  \<^item> the evaluation cell: \<open>dgl.batch\<close>, \<open>torch.tensor\<close>, the model,
    \<open>torch.multinomial\<close> and the two comparisons with the labels.

  Some of these calls have no way to fail where they stand, once the calls before them
  have returned: \<open>update_all\<close> and \<open>pop\<close> in \<open>GCN.forward\<close>, the assignment and
  \<open>dgl.mean_nodes\<close> in \<open>Classifier.forward\<close>, \<open>torch.tensor\<close> on the labels of the
  test set, and the second comparison after the first.  They are in the list because the
  code would pass their errors on like the others.
\<close>

theorem errors_propagate_unchanged:
  "(zip_star samples = [graphs, labels] \<and> batch dgl_batch graphs = Inl e \<longrightarrow>
      collate dgl_batch samples = Inl e) \<and>
   (zip_star samples = [graphs, labels] \<and> batch dgl_batch graphs = Inr batched_graph \<and>
    torch_tensor labels = Inl e \<longrightarrow>
      collate dgl_batch samples = Inl e) \<and>
   (mailbox received ''m'' = None \<longrightarrow> reduce received = Inl KeyError) \<and>
   (data node ''h'' = None \<longrightarrow> NodeApplyModule_forward m node = Inl KeyError) \<and>
   (data node ''h'' = Some x \<and> Linear_forward (linear m) x = Inl e \<longrightarrow>
      NodeApplyModule_forward m node = Inl e) \<and>
   (set_ndata ''h'' feature g = (Inl e, g1) \<longrightarrow> GCN_forward conv g feature = (Inl e, g1)) \<and>
   (set_ndata ''h'' feature g = (Inr (), g1) \<and> update_all msg reduce g1 = (Inl e, g2) \<longrightarrow>
      GCN_forward conv g feature = (Inl e, g2)) \<and>
   (set_ndata ''h'' feature g = (Inr (), g1) \<and> update_all msg reduce g1 = (Inr (), g2) \<and>
    apply_nodes (NodeApplyModule_forward (apply_mod conv)) g2 = (Inl e, g3) \<longrightarrow>
      GCN_forward conv g feature = (Inl e, g3)) \<and>
   (set_ndata ''h'' feature g = (Inr (), g1) \<and> update_all msg reduce g1 = (Inr (), g2) \<and>
    apply_nodes (NodeApplyModule_forward (apply_mod conv)) g2 = (Inr (), g3) \<and>
    pop_ndata ''h'' g3 = (Inl e, g4) \<longrightarrow>
      GCN_forward conv g feature = (Inl e, g4)) \<and>
   (GCN_forward conv g h = (Inl e, g1) \<longrightarrow> apply_layers (conv # convs) g h = (Inl e, g1)) \<and>
   (GCN_forward conv g h = (Inr h1, g1) \<and> apply_layers convs g1 h1 = (Inl e, g2) \<longrightarrow>
      apply_layers (conv # convs) g h = (Inl e, g2)) \<and>
   (apply_layers (layers clf) g (map (\<lambda>d. [real d]) (in_degrees g)) = (Inl e, g1) \<longrightarrow>
      Classifier_forward clf g = (Inl e, g1)) \<and>
   (apply_layers (layers clf) g (map (\<lambda>d. [real d]) (in_degrees g)) = (Inr h, g1) \<and>
    set_ndata ''h'' h g1 = (Inl e, g2) \<longrightarrow>
      Classifier_forward clf g = (Inl e, g2)) \<and>
   (apply_layers (layers clf) g (map (\<lambda>d. [real d]) (in_degrees g)) = (Inr h, g1) \<and>
    set_ndata ''h'' h g1 = (Inr (), g2) \<and> mean_nodes g2 ''h'' = Inl e \<longrightarrow>
      Classifier_forward clf g = (Inl e, g2)) \<and>
   (apply_layers (layers clf) g (map (\<lambda>d. [real d]) (in_degrees g)) = (Inr h, g1) \<and>
    set_ndata ''h'' h g1 = (Inr (), g2) \<and> mean_nodes g2 ''h'' = Inr hg \<and>
    Linear_forward (classify clf) hg = Inl e \<longrightarrow>
      Classifier_forward clf g = (Inl e, g2)) \<and>
   (collate (batch_graphs lib) (map pair minibatch) = Inl e \<longrightarrow>
      train_step lib i minibatch s = (Inl e, s)) \<and>
   (collate (batch_graphs lib) (map pair minibatch) = Inr (bg, label) \<and>
    model lib bg (world s) = (Inl e, w1) \<longrightarrow>
      train_step lib i minibatch s =
        (Inl e, s\<lparr>iter := Some i, world := w1,
                   calls := calls s @ [Forward bg]\<rparr>)) \<and>
   (collate (batch_graphs lib) (map pair minibatch) = Inr (bg, label) \<and>
    model lib bg (world s) = (Inr prediction, w1) \<and>
    loss_func lib prediction label w1 = (Inl e, w2) \<longrightarrow>
      train_step lib i minibatch s =
        (Inl e, s\<lparr>iter := Some i, world := w2,
                   calls := calls s @ [Forward bg, Loss label]\<rparr>)) \<and>
   (collate (batch_graphs lib) (map pair minibatch) = Inr (bg, label) \<and>
    model lib bg (world s) = (Inr prediction, w1) \<and>
    loss_func lib prediction label w1 = (Inr loss, w2) \<and>
    zero_grad lib w2 = (Inl e, w3) \<longrightarrow>
      train_step lib i minibatch s =
        (Inl e, s\<lparr>iter := Some i, world := w3,
                   calls := calls s @ [Forward bg, Loss label, ZeroGrad]\<rparr>)) \<and>
   (collate (batch_graphs lib) (map pair minibatch) = Inr (bg, label) \<and>
    model lib bg (world s) = (Inr prediction, w1) \<and>
    loss_func lib prediction label w1 = (Inr loss, w2) \<and>
    zero_grad lib w2 = (Inr (), w3) \<and> backward lib loss w3 = (Inl e, w4) \<longrightarrow>
      train_step lib i minibatch s =
        (Inl e, s\<lparr>iter := Some i, world := w4,
                   calls := calls s @ [Forward bg, Loss label, ZeroGrad, Backward]\<rparr>)) \<and>
   (collate (batch_graphs lib) (map pair minibatch) = Inr (bg, label) \<and>
    model lib bg (world s) = (Inr prediction, w1) \<and>
    loss_func lib prediction label w1 = (Inr loss, w2) \<and>
    zero_grad lib w2 = (Inr (), w3) \<and> backward lib loss w3 = (Inr (), w4) \<and>
    step lib w4 = (Inl e, w5) \<longrightarrow>
      train_step lib i minibatch s =
        (Inl e, s\<lparr>iter := Some i, world := w5,
                   calls := calls s @ [Forward bg, Loss label, ZeroGrad, Backward, Step]\<rparr>)) \<and>
   (train_batches lib i before s = (Inr (), s1) \<and>
    train_step lib (i + length before) minibatch s1 = (Inl e, s2) \<longrightarrow>
      train_batches lib i (before @ minibatch # rest) s = (Inl e, s2)) \<and>
   (train_batches lib 0 (loader_batches data_loader (sampler lib epoch)) (s\<lparr>epoch_loss := 0\<rparr>) =
      (Inl e, s1) \<longrightarrow>
      train_epoch lib data_loader epoch s = (Inl e, s1)) \<and>
   (train_epochs lib data_loader epochs s = (Inr (), s1) \<and>
    train_epoch lib data_loader epoch s1 = (Inl e, s2) \<longrightarrow>
      train_epochs lib data_loader (epochs @ epoch # later) s = (Inl e, s2)) \<and>
   (DataLoader trainset 32 = Inl e \<longrightarrow> training lib trainset s = (Inl e, s)) \<and>
   (DataLoader trainset 32 = Inr data_loader \<and>
    train_epochs lib data_loader [0..<80] (s\<lparr>epoch_losses := []\<rparr>) = (Inl e, s1) \<longrightarrow>
      training lib trainset s = (Inl e, s1)) \<and>
   (zip_star (map pair testset) = [test_X, test_Y] \<and>
    batch (batch_graphs elib) test_X = Inl e \<longrightarrow>
      evaluation elib testset es = (Inl e, es)) \<and>
   (zip_star (map pair testset) = [test_X, test_Y] \<and>
    batch (batch_graphs elib) test_X = Inr test_bg \<and> torch_tensor test_Y = Inl e \<longrightarrow>
      evaluation elib testset es = (Inl e, es)) \<and>
   (zip_star (map pair testset) = [test_X, test_Y] \<and>
    batch (batch_graphs elib) test_X = Inr test_bg \<and> torch_tensor test_Y = Inr targets \<and>
    model elib test_bg (world es) = (Inl e, ew) \<longrightarrow>
      evaluation elib testset es = (Inl e, es\<lparr>world := ew, calls := calls es @ [Forward test_bg]\<rparr>)) \<and>
   (zip_star (map pair testset) = [test_X, test_Y] \<and>
    batch (batch_graphs elib) test_X = Inr test_bg \<and> torch_tensor test_Y = Inr targets \<and>
    model elib test_bg (world es) = (Inr logits, ew) \<and>
    list_ex (\<lambda>r. r = []) (torch_softmax_1 logits) \<longrightarrow>
      evaluation elib testset es = (Inl RuntimeError, es\<lparr>world := ew, calls := calls es @ [Forward test_bg]\<rparr>)) \<and>
   (zip_star (map pair testset) = [test_X, test_Y] \<and>
    batch (batch_graphs elib) test_X = Inr test_bg \<and> torch_tensor test_Y = Inr targets \<and>
    model elib test_bg (world es) = (Inr logits, ew) \<and>
    \<not> list_ex (\<lambda>r. r = []) (torch_softmax_1 logits) \<and>
    eq_count (map real_of_int targets)
      (map real (map2 (draw elib) [0..<length (torch_softmax_1 logits)]
         (torch_softmax_1 logits))) = Inl e \<longrightarrow>
      evaluation elib testset es = (Inl e, es\<lparr>world := ew, calls := calls es @ [Forward test_bg]\<rparr>)) \<and>
   (zip_star (map pair testset) = [test_X, test_Y] \<and>
    batch (batch_graphs elib) test_X = Inr test_bg \<and> torch_tensor test_Y = Inr targets \<and>
    model elib test_bg (world es) = (Inr logits, ew) \<and>
    \<not> list_ex (\<lambda>r. r = []) (torch_softmax_1 logits) \<and>
    eq_count (map real_of_int targets)
      (map real (map2 (draw elib) [0..<length (torch_softmax_1 logits)]
         (torch_softmax_1 logits))) = Inr k \<and>
    eq_count (map real_of_int targets) (map real (map argmax (torch_softmax_1 logits))) =
      Inl e \<longrightarrow>
      evaluation elib testset es =
        (Inl e, es\<lparr>world := ew, calls := calls es @ [Forward test_bg],
                   stdout := stdout es @
                     [SampledLine (real k / real (length (map real_of_int targets)) * 100)]\<rparr>))"
  by (intro conjI collate_raises_batch
      collate_raises_tensor
      reduce_raises
      NodeApplyModule_forward_raises_data
      NodeApplyModule_forward_raises_linear
      GCN_forward_raises_set
      GCN_forward_raises_update_all
      GCN_forward_raises_apply_nodes
      GCN_forward_raises_pop
      apply_layers_raises_first
      apply_layers_raises_later
      Classifier_forward_raises_layers
      Classifier_forward_raises_set
      Classifier_forward_raises_mean_nodes
      Classifier_forward_raises_classify
      train_step_raises_collate
      train_step_raises_model
      train_step_raises_loss_func
      train_step_raises_zero_grad
      train_step_raises_backward
      train_step_raises_step
      train_batches_raises
      train_epoch_raises
      train_epochs_raises
      training_raises_DataLoader
      training_raises_epochs
      evaluation_raises_batch
      evaluation_raises_tensor
      evaluation_raises_model
      evaluation_raises_multinomial
      evaluation_raises_sampled
      evaluation_raises_argmax)

theorem errors_propagate_unchanged_witness:
  "collate (\<lambda>gs. Inr (sum_list gs) :: error + nat) [[Graph 5, Graph 7 :: (nat, int) obj]] =
     Inl TypeError \<and>
   reduce \<lparr>data = (\<lambda>k. None), mailbox = (\<lambda>k. None)\<rparr> = Inl KeyError \<and>
   NodeApplyModule_forward (apply_mod conv7)
     \<lparr>data = (\<lambda>k. None)(''h'' \<mapsto> [[2, 4]]), mailbox = (\<lambda>k. None)\<rparr> = Inl RuntimeError \<and>
   GCN_forward conv7 g7 [[4]] = (Inl DGLError, g7) \<and>
   GCN_forward conv7 g7 [[2, 4], [6, 8]] =
     (Inl RuntimeError, g7\<lparr>ndata := (ndata g7)(''h'' \<mapsto> [[2, 4], [4, 6]])\<rparr>) \<and>
   Classifier_forward
     (Classifier_init 2 2 2 [[1, 0], [0, 1]] [0, 1] [[1, 0], [0, 1]] [0, 1] [[1, 1], [1, -1]] [0, 0])
     g7 =
     (Inl RuntimeError, g7\<lparr>ndata := (ndata g7)(''h'' \<mapsto> [[1], [3 / 2]])\<rparr>) \<and>
   training lib0 [] s0 = (Inl ValueError, s0) \<and>
   training lib1 ts0 s0 =
     (Inl (OtherError ''out of memory''), s0\<lparr>iter := Some 0, calls := [Forward 12]\<rparr>) \<and>
   evaluation lib1 ts0 s0 =
     (Inl (OtherError ''out of memory''), s0\<lparr>calls := [Forward 12]\<rparr>) \<and>
   evaluation (lib0\<lparr>model := (\<lambda>bg w. (Inr [[0, 0, 0], []], w))\<rparr>) ts0 s0 =
     (Inl RuntimeError, s0\<lparr>calls := [Forward 12]\<rparr>) \<and>
   evaluation (lib0\<lparr>model := (\<lambda>bg w. (Inr [[0, 0, 0], [0, 0, 0], [0, 0, 0]], w))\<rparr>) ts0 s0 =
     (Inl RuntimeError, s0\<lparr>calls := [Forward 12]\<rparr>)"
proof (intro conjI)
  have ne: "ts0 \<noteq> []" by (simp add: ts0_def)
  have z: "zip_star [[Graph 5, Graph 7 :: (nat, int) obj]] = [[Graph 5], [Graph 7]]"
    by (simp add: zip_star.simps)
  show "collate (\<lambda>gs. Inr (sum_list gs) :: error + nat) [[Graph 5, Graph 7 :: (nat, int) obj]] =
     Inl TypeError"
    using errors_propagate_unchanged [where samples = "[[Graph 5, Graph 7 :: (nat, int) obj]]"
        and graphs = "[Graph 5]" and labels = "[Graph 7]"
        and dgl_batch = "\<lambda>gs. Inr (sum_list gs) :: error + nat" and batched_graph = 5
        and e = TypeError, THEN conjunct2, THEN conjunct1] z
    by (simp add: batch_def)
  show "reduce \<lparr>data = (\<lambda>k. None), mailbox = (\<lambda>k. None)\<rparr> = Inl KeyError"
    using errors_propagate_unchanged
        [where received = "\<lparr>data = (\<lambda>k. None), mailbox = (\<lambda>k. None)\<rparr>",
        THEN conjunct2, THEN conjunct2, THEN conjunct1]
    by simp
  let ?node = "\<lparr>data = (\<lambda>k. None)(''h'' \<mapsto> [[2, 4]]), mailbox = (\<lambda>k. None)\<rparr>"
  have lf: "Linear_forward (linear (apply_mod conv7)) [[2, 4]] = Inl RuntimeError"
    by (simp add: conv7_def GCN_init_def NodeApplyModule_init_def nn_Linear_def Linear_forward_def)
  show "NodeApplyModule_forward (apply_mod conv7) ?node = Inl RuntimeError"
    using errors_propagate_unchanged [where node = ?node and x = "[[2, 4]]"
        and m = "apply_mod conv7" and e = RuntimeError,
        THEN conjunct2, THEN conjunct2, THEN conjunct2, THEN conjunct2, THEN conjunct1] lf
    by simp
  show "GCN_forward conv7 g7 [[4]] = (Inl DGLError, g7)"
    using errors_propagate_unchanged [where feature = "[[4]]" and g = g7 and e = DGLError
        and ?g1.0 = g7 and conv = conv7, THEN conjunct2, THEN conjunct2, THEN conjunct2, THEN conjunct2, THEN conjunct2, THEN conjunct1]
    by (simp add: set_ndata_def g7_def)
  let ?ga = "g7\<lparr>ndata := (ndata g7)(''h'' \<mapsto> [[2, 4], [6, 8]])\<rparr>"
  let ?gb = "g7\<lparr>ndata := (ndata g7)(''h'' \<mapsto> [[2, 4], [4, 6]])\<rparr>"
  have a1: "set_ndata ''h'' [[2, 4], [6, 8]] g7 = (Inr (), ?ga)"
    by (simp add: set_ndata_def g7_def)
  have "update_all msg reduce ?ga =
      (Inr (), ?ga\<lparr>ndata := (ndata ?ga)(''h'' \<mapsto>
         map (neighbour_mean ?ga [[2, 4], [6, 8]]) [0..<num_nodes ?ga])\<rparr>)"
    by (rule update_all_msg_reduce) (simp_all add: g7_def)
  moreover have "map (neighbour_mean ?ga [[2, 4], [6, 8]]) [0..<num_nodes ?ga] = [[2, 4], [4, 6]]"
    by (simp add: g7_def gcn_eval)
  ultimately have a2: "update_all msg reduce ?ga = (Inr (), ?gb)" by simp
  have a3: "apply_nodes (NodeApplyModule_forward (apply_mod conv7)) ?gb = (Inl RuntimeError, ?gb)"
    by (simp add: apply_nodes_apply_mod conv7_def GCN_init_def NodeApplyModule_init_def nn_Linear_def)
  show "GCN_forward conv7 g7 [[2, 4], [6, 8]] = (Inl RuntimeError, ?gb)"
    using errors_propagate_unchanged [where feature = "[[2, 4], [6, 8]]" and g = g7
        and ?g1.0 = ?ga and ?g2.0 = ?gb and ?g3.0 = ?gb and e = RuntimeError and conv = conv7,
        THEN conjunct2, THEN conjunct2, THEN conjunct2, THEN conjunct2, THEN conjunct2, THEN conjunct2, THEN conjunct2, THEN conjunct1] a1 a2 a3
    by simp
  let ?f = "[[1], [2]] :: tensor"
  let ?c1 = "GCN_init 2 2 relu [[1, 0], [0, 1]] [0, 1]"
  let ?clf = "Classifier_init 2 2 2 [[1, 0], [0, 1]] [0, 1] [[1, 0], [0, 1]] [0, 1]
      [[1, 1], [1, -1]] [0, 0]"
  let ?gc = "g7\<lparr>ndata := (ndata g7)(''h'' \<mapsto> ?f)\<rparr>"
  let ?gd = "g7\<lparr>ndata := (ndata g7)(''h'' \<mapsto> [[1], [3 / 2]])\<rparr>"
  have d7: "map (\<lambda>d. [real d]) (in_degrees g7) = ?f"
    by (simp add: in_degrees_def in_degree_def g7_def upt_conv_Cons)
  have ls: "layers ?clf = [?c1, ?c1]" by (simp add: Classifier_init_def)
  have k1: "set_ndata ''h'' ?f g7 = (Inr (), ?gc)"
    by (simp add: set_ndata_def g7_def)
  have "update_all msg reduce ?gc =
      (Inr (), ?gc\<lparr>ndata := (ndata ?gc)(''h'' \<mapsto>
         map (neighbour_mean ?gc ?f) [0..<num_nodes ?gc])\<rparr>)"
    by (rule update_all_msg_reduce) (simp_all add: g7_def)
  moreover have "map (neighbour_mean ?gc ?f) [0..<num_nodes ?gc] = [[1], [3 / 2]]"
    by (simp add: g7_def gcn_eval)
  ultimately have k2: "update_all msg reduce ?gc = (Inr (), ?gd)" by simp
  have k3: "apply_nodes (NodeApplyModule_forward (apply_mod ?c1)) ?gd = (Inl RuntimeError, ?gd)"
    by (simp add: apply_nodes_apply_mod GCN_init_def NodeApplyModule_init_def nn_Linear_def)
  have l1: "GCN_forward ?c1 g7 ?f = (Inl RuntimeError, ?gd)"
    using errors_propagate_unchanged [where feature = ?f and g = g7
        and ?g1.0 = ?gc and ?g2.0 = ?gd and ?g3.0 = ?gd and e = RuntimeError and conv = ?c1,
        THEN conjunct2, THEN conjunct2, THEN conjunct2, THEN conjunct2, THEN conjunct2, THEN conjunct2, THEN conjunct2, THEN conjunct1] k1 k2 k3
    by simp
  have l2: "apply_layers (?c1 # [?c1]) g7 ?f = (Inl RuntimeError, ?gd)"
    using errors_propagate_unchanged [where conv = ?c1 and g = g7 and h = ?f
        and e = RuntimeError and ?g1.0 = ?gd and convs = "[?c1]",
        THEN conjunct2, THEN conjunct2, THEN conjunct2, THEN conjunct2, THEN conjunct2, THEN conjunct2, THEN conjunct2, THEN conjunct2, THEN conjunct2, THEN conjunct1] l1
    by simp
  show "Classifier_forward ?clf g7 = (Inl RuntimeError, ?gd)"
    using errors_propagate_unchanged [where clf = ?clf and g = g7 and e = RuntimeError
        and ?g1.0 = ?gd, THEN conjunct2, THEN conjunct2, THEN conjunct2, THEN conjunct2, THEN conjunct2, THEN conjunct2, THEN conjunct2, THEN conjunct2, THEN conjunct2, THEN conjunct2, THEN conjunct2, THEN conjunct1] l2
    unfolding ls d7 by simp
  show "training lib0 [] s0 = (Inl ValueError, s0)"
    using errors_propagate_unchanged [where trainset = "[] :: (nat \<times> int) list" and lib = lib0
        and s = s0 and e = ValueError, THEN conjunct2, THEN conjunct2, THEN conjunct2, THEN conjunct2, THEN conjunct2, THEN conjunct2, THEN conjunct2, THEN conjunct2, THEN conjunct2, THEN conjunct2, THEN conjunct2, THEN conjunct2, THEN conjunct2, THEN conjunct2, THEN conjunct2, THEN conjunct2, THEN conjunct2, THEN conjunct2, THEN conjunct2, THEN conjunct2, THEN conjunct2, THEN conjunct2, THEN conjunct2, THEN conjunct2, THEN conjunct1]
    by (simp add: DataLoader_def)
  let ?err = "OtherError ''out of memory''"
  let ?sa = "s0\<lparr>epoch_loss := 0\<rparr>"
  let ?sf = "s0\<lparr>iter := Some 0, calls := [Forward 12]\<rparr>"
  have c: "collate (batch_graphs lib1) (map pair [(7, 2), (5, 0)]) = Inr (12 :: nat, [2, 0 :: int])"
    by (subst collate_pairs) (simp_all add: lib1_def lib0_def)
  have m: "model lib1 12 (world ?sa) = (Inl ?err, 0)"
    by (simp add: lib1_def s0_def)
  have t1: "train_step lib1 0 [(7, 2), (5, 0)] ?sa = (Inl ?err, ?sf)"
    using errors_propagate_unchanged [where lib = lib1 and minibatch = "[(7, 2), (5, 0)]"
        and bg = 12 and label = "[2, 0]" and s = ?sa and e = ?err and ?w1.0 = 0 and i = 0,
        THEN conjunct2, THEN conjunct2, THEN conjunct2, THEN conjunct2, THEN conjunct2, THEN conjunct2, THEN conjunct2, THEN conjunct2, THEN conjunct2, THEN conjunct2, THEN conjunct2, THEN conjunct2, THEN conjunct2, THEN conjunct2, THEN conjunct2, THEN conjunct2, THEN conjunct1] c m
    by (simp add: s0_def)
  have t2: "train_batches lib1 0 [[(7, 2), (5, 0)]] ?sa = (Inl ?err, ?sf)"
    using errors_propagate_unchanged [where lib = lib1 and i = 0 and before = "[]" and s = ?sa
        and ?s1.0 = ?sa and minibatch = "[(7, 2), (5, 0)]" and e = ?err and ?s2.0 = ?sf
        and rest = "[]", THEN conjunct2, THEN conjunct2, THEN conjunct2, THEN conjunct2, THEN conjunct2, THEN conjunct2, THEN conjunct2, THEN conjunct2, THEN conjunct2, THEN conjunct2, THEN conjunct2, THEN conjunct2, THEN conjunct2, THEN conjunct2, THEN conjunct2, THEN conjunct2, THEN conjunct2, THEN conjunct2, THEN conjunct2, THEN conjunct2, THEN conjunct2, THEN conjunct1] t1
    by simp
  let ?dl = "\<lparr>dataset = ts0, batch_size = 32\<rparr>"
  have dl: "loader_batches ?dl (sampler lib1 0) = [[(7, 2), (5, 0)]]"
    by (simp add: loader_batches_def lib1_def lib0_def ts0_def chunks.simps)
  have t3: "train_epoch lib1 ?dl 0 s0 = (Inl ?err, ?sf)"
    using errors_propagate_unchanged [where lib = lib1 and data_loader = ?dl and epoch = 0
        and s = s0 and e = ?err and ?s1.0 = ?sf, THEN conjunct2, THEN conjunct2, THEN conjunct2, THEN conjunct2, THEN conjunct2, THEN conjunct2, THEN conjunct2, THEN conjunct2, THEN conjunct2, THEN conjunct2, THEN conjunct2, THEN conjunct2, THEN conjunct2, THEN conjunct2, THEN conjunct2, THEN conjunct2, THEN conjunct2, THEN conjunct2, THEN conjunct2, THEN conjunct2, THEN conjunct2, THEN conjunct2, THEN conjunct1] t2 dl
    by simp
  have t4: "train_epochs lib1 ?dl ([] @ 0 # [1..<80]) s0 = (Inl ?err, ?sf)"
    using errors_propagate_unchanged [where lib = lib1 and data_loader = ?dl and epochs = "[]"
        and s = s0 and ?s1.0 = s0 and epoch = 0 and e = ?err and ?s2.0 = ?sf
        and later = "[1..<80]", THEN conjunct2, THEN conjunct2, THEN conjunct2, THEN conjunct2, THEN conjunct2, THEN conjunct2, THEN conjunct2, THEN conjunct2, THEN conjunct2, THEN conjunct2, THEN conjunct2, THEN conjunct2, THEN conjunct2, THEN conjunct2, THEN conjunct2, THEN conjunct2, THEN conjunct2, THEN conjunct2, THEN conjunct2, THEN conjunct2, THEN conjunct2, THEN conjunct2, THEN conjunct2, THEN conjunct1] t3
    by simp
  have u: "[0..<80] = [] @ 0 # [1..<80]" by (simp add: upt_conv_Cons)
  have d: "DataLoader ts0 32 = Inr ?dl" by (simp add: DataLoader_def ts0_def)
  have s0': "s0\<lparr>epoch_losses := []\<rparr> = s0" by (simp add: s0_def)
  show "training lib1 ts0 s0 = (Inl ?err, ?sf)"
    using errors_propagate_unchanged [where lib = lib1 and trainset = ts0 and data_loader = ?dl
        and s = s0 and e = ?err and ?s1.0 = ?sf, THEN conjunct2, THEN conjunct2, THEN conjunct2, THEN conjunct2, THEN conjunct2, THEN conjunct2, THEN conjunct2, THEN conjunct2, THEN conjunct2, THEN conjunct2, THEN conjunct2, THEN conjunct2, THEN conjunct2, THEN conjunct2, THEN conjunct2, THEN conjunct2, THEN conjunct2, THEN conjunct2, THEN conjunct2, THEN conjunct2, THEN conjunct2, THEN conjunct2, THEN conjunct2, THEN conjunct2, THEN conjunct2, THEN conjunct1] d t4
    unfolding s0' u by simp
  note zt = zip_star_pairs [OF ne]
  have bt: "batch (batch_graphs lib0) (map (Graph \<circ> fst) ts0 :: (nat, int) obj list) = Inr 12"
    by (simp add: batch_def graphs_of_Graphs lib0_def ts0_def)
  have b1: "batch (batch_graphs lib1) (map (Graph \<circ> fst) ts0 :: (nat, int) obj list) = Inr 12"
    by (simp add: batch_def graphs_of_Graphs lib1_def lib0_def ts0_def)
  have tt: "torch_tensor (map (Label \<circ> snd) ts0 :: (nat, int) obj list) = Inr [0, 2]"
    by (simp add: torch_tensor_Labels ts0_def)
  have m2: "model lib1 12 (world s0) = (Inl ?err, 0)"
    by (simp add: lib1_def s0_def)
  show "evaluation lib1 ts0 s0 = (Inl ?err, s0\<lparr>calls := [Forward 12]\<rparr>)"
    using errors_propagate_unchanged [where testset = ts0 and elib = lib1 and test_bg = 12
        and test_X = "map (Graph \<circ> fst) ts0" and test_Y = "map (Label \<circ> snd) ts0"
        and targets = "[0, 2]" and es = s0 and e = ?err and ew = 0,
        THEN conjunct2, THEN conjunct2, THEN conjunct2, THEN conjunct2, THEN conjunct2, THEN conjunct2, THEN conjunct2, THEN conjunct2, THEN conjunct2, THEN conjunct2, THEN conjunct2, THEN conjunct2, THEN conjunct2, THEN conjunct2, THEN conjunct2, THEN conjunct2, THEN conjunct2, THEN conjunct2, THEN conjunct2, THEN conjunct2, THEN conjunct2, THEN conjunct2, THEN conjunct2, THEN conjunct2, THEN conjunct2, THEN conjunct2, THEN conjunct2, THEN conjunct2, THEN conjunct1] zt b1 tt m2
    by (simp add: s0_def)
  let ?l2 = "lib0\<lparr>model := (\<lambda>bg w. (Inr [[0, 0, 0], []], w))\<rparr>"
  show "evaluation ?l2 ts0 s0 = (Inl RuntimeError, s0\<lparr>calls := [Forward 12]\<rparr>)"
    using errors_propagate_unchanged [where testset = ts0 and elib = ?l2 and test_bg = 12
        and test_X = "map (Graph \<circ> fst) ts0" and test_Y = "map (Label \<circ> snd) ts0"
        and targets = "[0, 2]" and es = s0 and ew = 0 and logits = "[[0, 0, 0], []]",
        THEN conjunct2, THEN conjunct2, THEN conjunct2, THEN conjunct2, THEN conjunct2, THEN conjunct2, THEN conjunct2, THEN conjunct2, THEN conjunct2, THEN conjunct2, THEN conjunct2, THEN conjunct2, THEN conjunct2, THEN conjunct2, THEN conjunct2, THEN conjunct2, THEN conjunct2, THEN conjunct2, THEN conjunct2, THEN conjunct2, THEN conjunct2, THEN conjunct2, THEN conjunct2, THEN conjunct2, THEN conjunct2, THEN conjunct2, THEN conjunct2, THEN conjunct2, THEN conjunct2, THEN conjunct1] zt bt tt
    by (simp add: s0_def torch_softmax_1_def softmax_def)
  let ?l3 = "lib0\<lparr>model := (\<lambda>bg w. (Inr [[0, 0, 0], [0, 0, 0], [0, 0, 0]], w))\<rparr>"
  show "evaluation ?l3 ts0 s0 = (Inl RuntimeError, s0\<lparr>calls := [Forward 12]\<rparr>)"
    using errors_propagate_unchanged [where testset = ts0 and elib = ?l3 and test_bg = 12
        and test_X = "map (Graph \<circ> fst) ts0" and test_Y = "map (Label \<circ> snd) ts0"
        and targets = "[0, 2]" and es = s0 and ew = 0 and e = RuntimeError
        and logits = "[[0, 0, 0], [0, 0, 0], [0, 0, 0]]",
        THEN conjunct2, THEN conjunct2, THEN conjunct2, THEN conjunct2, THEN conjunct2, THEN conjunct2, THEN conjunct2, THEN conjunct2, THEN conjunct2, THEN conjunct2, THEN conjunct2, THEN conjunct2, THEN conjunct2, THEN conjunct2, THEN conjunct2, THEN conjunct2, THEN conjunct2, THEN conjunct2, THEN conjunct2, THEN conjunct2, THEN conjunct2, THEN conjunct2, THEN conjunct2, THEN conjunct2, THEN conjunct2, THEN conjunct2, THEN conjunct2, THEN conjunct2, THEN conjunct2, THEN conjunct2, THEN conjunct1] zt bt tt
    by (simp add: s0_def torch_softmax_1_def softmax_zeros eq_count_def)
qed

end
